theory Spec2Isabelle
  imports Main "HOL-Library.Word"
begin

section \<open>The native kernel interface (tx_api.h)\<close>

text \<open>
  The wrapper classes of threadx-mcpp derive privately from the kernel's control blocks
  and forward every operation to a service of the ThreadX kernel. The kernel is not part
  of the repository, so its constants and its services are a parameter of the model: a
  record \<open>K\<close> holding the values of the macros the wrapper mentions and one function per
  service the wrapper calls. A service takes the memory and returns its status and the
  memory it leaves, and nothing is assumed about either; whatever other threads and timers
  do while a call blocks is part of the memory the call returns. Two services have no
  status: \<open>tx_thread_identify\<close>, a query that returns the pointer to the current thread and
  is taken to change nothing, and \<open>tx_thread_relinquish\<close>, which returns nothing.

  \<open>UINT\<close> and \<open>ULONG\<close> are the kernel's unsigned types, 32 bits wide on the ports the
  library targets. A pointer is an address, \<open>0\<close> being \<open>nullptr\<close>. A function pointer is
  a tag: the one function of the library whose address is ever taken is
  \<open>thread::join_exit_callback\<close>.
\<close>

type_synonym UINT = "32 word"
type_synonym ULONG = "32 word"
type_synonym addr = nat

datatype funptr = Null_fn | Join_exit_callback | User_fn nat

text \<open>
  The fields of the control blocks that the wrapper reads or writes itself.
  \<open>entry_exit_param\<close> is the member \<^verbatim>\<open>entry_exit_param_\<close> that \<open>TX_THREAD_USER_EXTENSION\<close>
  adds to the thread control block (see the README); a name of HOL cannot end in an
  underscore.
\<close>

record TX_THREAD_STRUCT =
  tx_thread_state :: UINT
  tx_thread_user_priority :: UINT
  tx_thread_name :: string
  entry_exit_param :: addr

record TX_MUTEX_STRUCT =
  tx_mutex_owner :: addr

record TX_SEMAPHORE_STRUCT =
  tx_semaphore_count :: ULONG

text \<open>
  The memory the program and the kernel share: the control blocks by address, and
  whatever else the kernel keeps for itself (\<open>kernel_private\<close>).
\<close>

record 'k memory =
  threads :: "addr \<Rightarrow> TX_THREAD_STRUCT"
  mutexes :: "addr \<Rightarrow> TX_MUTEX_STRUCT"
  semaphores :: "addr \<Rightarrow> TX_SEMAPHORE_STRUCT"
  kernel_private :: 'k

record 'k kernel =
  TX_SUCCESS :: UINT
  TX_READY :: UINT
  TX_COMPLETED :: UINT
  TX_TERMINATED :: UINT
  TX_THREAD_EXIT :: UINT
  TX_WAIT_FOREVER :: ULONG
  TX_NO_TIME_SLICE :: ULONG
  TX_AUTO_START :: UINT
  TX_INHERIT :: UINT
  TX_NO_INHERIT :: UINT
  tx_thread_create :: "addr \<Rightarrow> string \<Rightarrow> funptr \<Rightarrow> ULONG \<Rightarrow> addr \<Rightarrow> ULONG \<Rightarrow> UINT \<Rightarrow> UINT
    \<Rightarrow> ULONG \<Rightarrow> UINT \<Rightarrow> 'k memory \<Rightarrow> UINT \<times> 'k memory"
  tx_thread_terminate :: "addr \<Rightarrow> 'k memory \<Rightarrow> UINT \<times> 'k memory"
  tx_thread_delete :: "addr \<Rightarrow> 'k memory \<Rightarrow> UINT \<times> 'k memory"
  tx_thread_suspend :: "addr \<Rightarrow> 'k memory \<Rightarrow> UINT \<times> 'k memory"
  tx_thread_resume :: "addr \<Rightarrow> 'k memory \<Rightarrow> UINT \<times> 'k memory"
  tx_thread_priority_change :: "addr \<Rightarrow> UINT \<Rightarrow> 'k memory \<Rightarrow> (UINT \<times> UINT) \<times> 'k memory"
  tx_thread_entry_exit_notify :: "addr \<Rightarrow> funptr \<Rightarrow> 'k memory \<Rightarrow> UINT \<times> 'k memory"
  tx_thread_identify :: "'k memory \<Rightarrow> addr"
  tx_thread_sleep :: "ULONG \<Rightarrow> 'k memory \<Rightarrow> UINT \<times> 'k memory"
  tx_thread_relinquish :: "'k memory \<Rightarrow> 'k memory"
  tx_mutex_create :: "addr \<Rightarrow> string \<Rightarrow> UINT \<Rightarrow> 'k memory \<Rightarrow> UINT \<times> 'k memory"
  tx_mutex_get :: "addr \<Rightarrow> ULONG \<Rightarrow> 'k memory \<Rightarrow> UINT \<times> 'k memory"
  tx_mutex_put :: "addr \<Rightarrow> 'k memory \<Rightarrow> UINT \<times> 'k memory"
  tx_semaphore_create :: "addr \<Rightarrow> string \<Rightarrow> ULONG \<Rightarrow> 'k memory \<Rightarrow> UINT \<times> 'k memory"
  tx_semaphore_get :: "addr \<Rightarrow> ULONG \<Rightarrow> 'k memory \<Rightarrow> UINT \<times> 'k memory"
  tx_semaphore_put :: "addr \<Rightarrow> 'k memory \<Rightarrow> UINT \<times> 'k memory"

text \<open>
  Every call into the kernel is recorded, in order, in a trace that runs beside the
  memory. The trace is an observation of the model, not a variable of the program.
\<close>

datatype kcall =
  Tx_thread_create addr string funptr ULONG addr ULONG UINT UINT ULONG UINT
  | Tx_thread_terminate addr
  | Tx_thread_delete addr
  | Tx_thread_suspend addr
  | Tx_thread_resume addr
  | Tx_thread_priority_change addr UINT
  | Tx_thread_entry_exit_notify addr funptr
  | Tx_thread_identify
  | Tx_thread_sleep ULONG
  | Tx_thread_relinquish
  | Tx_mutex_create addr string UINT
  | Tx_mutex_get addr ULONG
  | Tx_mutex_put addr
  | Tx_semaphore_create addr string ULONG
  | Tx_semaphore_get addr ULONG
  | Tx_semaphore_put addr

type_synonym 'k world = "'k memory \<times> kcall list"

text \<open>
  \<open>assert\<close> is modelled as enabled (no \<open>NDEBUG\<close>): a failed assertion ends the program,
  which is the result \<open>Inl AssertionFailed\<close>.
\<close>

datatype error = AssertionFailed

type_synonym ('k, 'a) op = "'k world \<Rightarrow> (error + 'a) \<times> 'k world"

definition call :: "kcall \<Rightarrow> ('k memory \<Rightarrow> 'r \<times> 'k memory) \<Rightarrow> 'k world \<Rightarrow> 'r \<times> 'k world" where
  "call c service w = (let (result, s') = service (fst w) in (result, (s', snd w @ [c])))"

definition return :: "'a \<Rightarrow> ('k, 'a) op" where
  "return x w = (Inr x, w)"

definition bind :: "('k, 'a) op \<Rightarrow> ('a \<Rightarrow> ('k, 'b) op) \<Rightarrow> ('k, 'b) op" where
  "bind m f w = (case m w of (Inl e, w') \<Rightarrow> (Inl e, w') | (Inr x, w') \<Rightarrow> f x w')"

definition assert :: "bool \<Rightarrow> ('k, unit) op" where
  "assert b w = (if b then (Inr (), w) else (Inl AssertionFailed, w))"

section \<open>tick_timer.h\<close>

text \<open>
  \<open>tick_timer::duration\<close> is \<open>std::chrono::duration<ULONG, std::ratio<1, tick_rate_Hz>>\<close>:
  a count of ticks. A \<open>tick_timer::time_point\<close> holds the duration since the epoch.
\<close>

datatype duration = Duration (count: ULONG)

datatype time_point = Time_point (time_since_epoch: duration)

definition infinite_delay :: "'k kernel \<Rightarrow> ULONG" where
  "infinite_delay K = TX_WAIT_FOREVER K"

definition to_ticks :: "duration \<Rightarrow> ULONG" where
  "to_ticks d = count d"

definition to_ticks_time_point :: "time_point \<Rightarrow> ULONG" where
  "to_ticks_time_point time = to_ticks (time_since_epoch time)"

definition infinity :: "'k kernel \<Rightarrow> duration" where
  "infinity K = Duration (infinite_delay K)"

section \<open>mutex.h, mutex.cpp\<close>

definition mutex_DEFAULT_NAME :: string where
  "mutex_DEFAULT_NAME = ''mutex''"

definition mutex_get :: "'k kernel \<Rightarrow> addr \<Rightarrow> duration \<Rightarrow> ('k, bool) op" where
  "mutex_get K this timeout w =
     (let (result, w') = call (Tx_mutex_get this (to_ticks timeout))
                              (tx_mutex_get K this (to_ticks timeout)) w
      in (Inr (result = TX_SUCCESS K), w'))"

definition mutex_lock :: "'k kernel \<Rightarrow> addr \<Rightarrow> ('k, unit) op" where
  "mutex_lock K this = bind (mutex_get K this (infinity K)) (\<lambda>_. return ())"

definition mutex_try_lock :: "'k kernel \<Rightarrow> addr \<Rightarrow> ('k, bool) op" where
  "mutex_try_lock K this = mutex_get K this (Duration 0)"

definition mutex_unlock :: "'k kernel \<Rightarrow> addr \<Rightarrow> ('k, unit) op" where
  "mutex_unlock K this w =
     (let (result, w') = call (Tx_mutex_put this) (tx_mutex_put K this) w
      in assert (result = TX_SUCCESS K) w')"

text \<open>
  \<open>try_lock_for\<close> is a template over every \<open>std::chrono::duration\<close>; the argument is
  converted to \<open>tick_timer::duration\<close> on the way into \<open>get\<close>. The model is the
  instance at \<open>tick_timer::duration\<close> itself, where the conversion changes nothing.
\<close>

definition mutex_try_lock_for :: "'k kernel \<Rightarrow> addr \<Rightarrow> duration \<Rightarrow> ('k, bool) op" where
  "mutex_try_lock_for K this rel_time = mutex_get K this rel_time"

definition mutex_get_locking_thread :: "addr \<Rightarrow> ('k, addr) op" where
  "mutex_get_locking_thread this w = (Inr (tx_mutex_owner (mutexes (fst w) this)), w)"

definition mutex_ctor :: "'k kernel \<Rightarrow> addr \<Rightarrow> ('k, unit) op" where
  "mutex_ctor K this w =
     (let priority_inheritance = True;
          inherit = (if priority_inheritance then TX_INHERIT K else TX_NO_INHERIT K);
          (result, w') = call (Tx_mutex_create this mutex_DEFAULT_NAME inherit)
                              (tx_mutex_create K this mutex_DEFAULT_NAME inherit) w
      in (Inr (), w'))"

section \<open>semaphore.h, semaphore.cpp\<close>

definition semaphore_get :: "'k kernel \<Rightarrow> addr \<Rightarrow> duration \<Rightarrow> ('k, bool) op" where
  "semaphore_get K this timeout w =
     (let (result, w') = call (Tx_semaphore_get this (to_ticks timeout))
                              (tx_semaphore_get K this (to_ticks timeout)) w
      in (Inr (result = TX_SUCCESS K), w'))"

text \<open>
  The loop of \<open>semaphore::put\<close>, with its two variables \<open>success\<close> and \<open>update\<close>:
  \<^verbatim>\<open>while (success && (update > 0)) { success = TX_SUCCESS == tx_semaphore_put(this); update--; }\<close>
\<close>

function put_loop :: "'k kernel \<Rightarrow> addr \<Rightarrow> bool \<Rightarrow> ULONG \<Rightarrow> 'k world \<Rightarrow> bool \<times> 'k world" where
  "put_loop K this success update w =
     (if success \<and> 0 < update
      then put_loop K this
             (TX_SUCCESS K = fst (call (Tx_semaphore_put this) (tx_semaphore_put K this) w))
             (update - 1)
             (snd (call (Tx_semaphore_put this) (tx_semaphore_put K this) w))
      else (success, w))"
  by pat_completeness auto
termination
  by (relation "measure (\<lambda>(K, this, success, update, w). unat update)")
     (auto simp: unat_minus_one word_greater_zero_iff unat_gt_0)

declare put_loop.simps [simp del]

definition semaphore_put :: "'k kernel \<Rightarrow> addr \<Rightarrow> ULONG \<Rightarrow> ('k, bool) op" where
  "semaphore_put K this update w =
     (let (success, w') = put_loop K this True update w in (Inr success, w'))"

definition semaphore_acquire :: "'k kernel \<Rightarrow> addr \<Rightarrow> ('k, unit) op" where
  "semaphore_acquire K this = bind (semaphore_get K this (infinity K)) (\<lambda>_. return ())"

definition semaphore_try_acquire :: "'k kernel \<Rightarrow> addr \<Rightarrow> ('k, bool) op" where
  "semaphore_try_acquire K this = semaphore_get K this (Duration 0)"

text \<open>
  \<open>try_acquire_for\<close> at \<open>tick_timer::duration\<close>, where \<open>std::chrono::duration_cast\<close> to
  \<open>tick_timer::duration\<close> is the identity.
\<close>

definition semaphore_try_acquire_for :: "'k kernel \<Rightarrow> addr \<Rightarrow> duration \<Rightarrow> ('k, bool) op" where
  "semaphore_try_acquire_for K this rel_time = semaphore_get K this rel_time"

definition semaphore_release :: "'k kernel \<Rightarrow> addr \<Rightarrow> ULONG \<Rightarrow> ('k, unit) op" where
  "semaphore_release K this update = bind (semaphore_put K this update) (\<lambda>_. return ())"

definition semaphore_get_count :: "addr \<Rightarrow> ('k, ULONG) op" where
  "semaphore_get_count this w = (Inr (tx_semaphore_count (semaphores (fst w) this)), w)"

text \<open>The constructor \<open>semaphore(max, desired, name)\<close>. Its first parameter (\<open>max_value\<close>
  here, \<open>max\<close> being a constant of HOL) does not occur in its body.\<close>

definition semaphore_ctor :: "'k kernel \<Rightarrow> addr \<Rightarrow> ULONG \<Rightarrow> ULONG \<Rightarrow> string \<Rightarrow> ('k, unit) op" where
  "semaphore_ctor K this max_value desired name w =
     (let (result, w') = call (Tx_semaphore_create this name desired)
                              (tx_semaphore_create K this name desired) w
      in assert (result = TX_SUCCESS K) w')"

definition counting_semaphore_max :: "ULONG \<Rightarrow> ULONG" where
  "counting_semaphore_max MAX_VALUE = MAX_VALUE"

definition counting_semaphore :: "'k kernel \<Rightarrow> ULONG \<Rightarrow> addr \<Rightarrow> ULONG \<Rightarrow> ('k, unit) op" where
  "counting_semaphore K MAX_VALUE this desired =
     semaphore_ctor K this MAX_VALUE desired ''counting_semaphore''"

definition binary_semaphore_max :: ULONG where
  "binary_semaphore_max = 1"

definition binary_semaphore :: "'k kernel \<Rightarrow> addr \<Rightarrow> ULONG \<Rightarrow> ('k, unit) op" where
  "binary_semaphore K this desired = semaphore_ctor K this 1 desired ''binary_semaphore''"

section \<open>thread.h, thread.cpp\<close>

datatype thread_state = running | ready | completed | terminated | suspended

type_synonym priority = UINT

definition thread_dtor :: "'k kernel \<Rightarrow> addr \<Rightarrow> ('k, unit) op" where
  "thread_dtor K this =
     bind (\<lambda>w. if tx_thread_state (threads (fst w) this) \<noteq> TX_COMPLETED K
               then (let (result, w') = call (Tx_thread_terminate this) (tx_thread_terminate K this) w
                     in assert (result = TX_SUCCESS K) w')
               else return () w)
          (\<lambda>_ w. let (result, w') = call (Tx_thread_delete this) (tx_thread_delete K this) w
                  in assert (result = TX_SUCCESS K) w')"

definition set_entry_exit_param :: "addr \<Rightarrow> addr \<Rightarrow> 'k memory \<Rightarrow> 'k memory" where
  "set_entry_exit_param this param s =
     s\<lparr>threads := (threads s)(this := (threads s this)\<lparr>entry_exit_param := param\<rparr>)\<rparr>"

definition thread_set_entry_exit_callback :: "'k kernel \<Rightarrow> addr \<Rightarrow> funptr \<Rightarrow> addr \<Rightarrow> ('k, unit) op" where
  "thread_set_entry_exit_callback K this func param w =
     (let (result, w') = call (Tx_thread_entry_exit_notify this func)
                              (tx_thread_entry_exit_notify K this func) w
      in if TX_SUCCESS K = result
         then (Inr (), (set_entry_exit_param this param (fst w'), snd w'))
         else (Inr (), w'))"

definition thread_get_entry_exit_param :: "addr \<Rightarrow> ('k, addr) op" where
  "thread_get_entry_exit_param this w = (Inr (entry_exit_param (threads (fst w) this)), w)"

definition thread_get_current :: "'k kernel \<Rightarrow> ('k, addr) op" where
  "thread_get_current K w =
     (let (p, w') = call Tx_thread_identify (\<lambda>s. (tx_thread_identify K s, s)) w in (Inr p, w'))"

definition thread_get_state :: "'k kernel \<Rightarrow> addr \<Rightarrow> ('k, thread_state) op" where
  "thread_get_state K this w =
     (let st = tx_thread_state (threads (fst w) this) in
      if st = TX_READY K
        then bind (thread_get_current K) (\<lambda>cur. return (if cur = this then running else ready)) w
      else if st = TX_COMPLETED K then return completed w
      else if st = TX_TERMINATED K then return terminated w
      else return suspended w)"

definition thread_joinable :: "'k kernel \<Rightarrow> addr \<Rightarrow> ('k, bool) op" where
  "thread_joinable K this =
     bind (thread_get_state K this) (\<lambda>state.
       if state \<noteq> completed \<and> state \<noteq> terminated
       then bind (thread_get_entry_exit_param this) (\<lambda>param. return (0 = param))
       else return False)"

definition thread_get_id :: "addr \<Rightarrow> ('k, addr) op" where
  "thread_get_id this = return this"

definition this_thread_get_id :: "'k kernel \<Rightarrow> ('k, addr) op" where
  "this_thread_get_id K = bind (thread_get_current K) (\<lambda>cur. thread_get_id cur)"

definition thread_join_exit_callback :: "'k kernel \<Rightarrow> addr \<Rightarrow> UINT \<Rightarrow> ('k, unit) op" where
  "thread_join_exit_callback K t ident =
     (if ident = TX_THREAD_EXIT K
      then bind (thread_get_entry_exit_param t) (\<lambda>exit_cond. semaphore_release K exit_cond 1)
      else return ())"

text \<open>
  \<open>thread::join\<close>. The local \<open>binary_semaphore exit_cond;\<close> lives in the caller's stack
  frame; its address is the parameter \<open>exit_cond\<close> of the model.
\<close>

definition thread_join :: "'k kernel \<Rightarrow> addr \<Rightarrow> addr \<Rightarrow> ('k, unit) op" where
  "thread_join K this exit_cond =
     bind (thread_joinable K this) (\<lambda>j.
     bind (assert j) (\<lambda>_.
     bind (thread_get_id this) (\<lambda>this_id.
     bind (this_thread_get_id K) (\<lambda>cur_id.
     bind (assert (this_id \<noteq> cur_id)) (\<lambda>_.
     bind (binary_semaphore K exit_cond 0) (\<lambda>_.
     bind (thread_set_entry_exit_callback K this Join_exit_callback exit_cond) (\<lambda>_.
     semaphore_acquire K exit_cond)))))))"

definition thread_suspend :: "'k kernel \<Rightarrow> addr \<Rightarrow> ('k, unit) op" where
  "thread_suspend K this w =
     (let (result, w') = call (Tx_thread_suspend this) (tx_thread_suspend K this) w
      in (Inr (), w'))"

definition thread_resume :: "'k kernel \<Rightarrow> addr \<Rightarrow> ('k, unit) op" where
  "thread_resume K this w =
     (let (result, w') = call (Tx_thread_resume this) (tx_thread_resume K this) w
      in (Inr (), w'))"

definition thread_get_priority :: "addr \<Rightarrow> ('k, priority) op" where
  "thread_get_priority this w = (Inr (tx_thread_user_priority (threads (fst w) this)), w)"

definition thread_set_priority :: "'k kernel \<Rightarrow> addr \<Rightarrow> priority \<Rightarrow> ('k, unit) op" where
  "thread_set_priority K this prio w =
     (let (result, w') = call (Tx_thread_priority_change this prio)
                              (tx_thread_priority_change K this prio) w
      in (Inr (), w'))"

definition thread_get_name :: "addr \<Rightarrow> ('k, string) op" where
  "thread_get_name this w = (Inr (tx_thread_name (threads (fst w) this)), w)"

definition thread_ctor ::
  "'k kernel \<Rightarrow> addr \<Rightarrow> addr \<Rightarrow> ULONG \<Rightarrow> funptr \<Rightarrow> ULONG \<Rightarrow> priority \<Rightarrow> string \<Rightarrow> ('k, unit) op" where
  "thread_ctor K this pstack stack_size func param prio name w =
     (let (result, w') =
            call (Tx_thread_create this name func param pstack stack_size prio prio
                    (TX_NO_TIME_SLICE K) (TX_AUTO_START K))
                 (tx_thread_create K this name func param pstack stack_size prio prio
                    (TX_NO_TIME_SLICE K) (TX_AUTO_START K)) w
      in assert (result = TX_SUCCESS K) w')"

definition this_thread_yield :: "'k kernel \<Rightarrow> ('k, unit) op" where
  "this_thread_yield K w =
     (let (u, w') = call Tx_thread_relinquish (\<lambda>s. ((), tx_thread_relinquish K s)) w
      in (Inr (), w'))"

definition this_thread_sleep_for :: "'k kernel \<Rightarrow> duration \<Rightarrow> ('k, unit) op" where
  "this_thread_sleep_for K rel_time w =
     (let (result, w') = call (Tx_thread_sleep (to_ticks rel_time))
                              (tx_thread_sleep K (to_ticks rel_time)) w
      in assert (result = TX_SUCCESS K) w')"

section \<open>A kernel to run the operations on\<close>

text \<open>
  To evaluate the operations on concrete inputs, \<open>sim_kernel\<close> is an instance of the
  kernel parameter: the macro values of ThreadX 6.1.7 (the version the README names) and a
  simulation of the services in which no other thread ever runs. A request that cannot be
  granted at once returns \<open>TX_NO_INSTANCE\<close> or \<open>TX_NOT_AVAILABLE\<close> when the wait option is
  zero, and otherwise \<open>TX_WAIT_ABORTED\<close>, the status a waiting thread receives when its
  wait is ended by \<open>tx_thread_wait_abort\<close>. A semaphore has no ceiling, as with
  \<open>tx_semaphore_put\<close>. The simulation only serves as a concrete input; the general
  theorems below hold for every kernel.
\<close>

record sim =
  sim_current :: addr
  sim_notify :: "addr \<Rightarrow> funptr"
  sim_ownership_count :: "addr \<Rightarrow> nat"

type_synonym sim_service = "sim memory \<Rightarrow> UINT \<times> sim memory"

definition sim_TX_SUSPENDED :: UINT where "sim_TX_SUSPENDED = 0x03"
definition sim_TX_NO_INSTANCE :: UINT where "sim_TX_NO_INSTANCE = 0x0D"
definition sim_TX_DELETE_ERROR :: UINT where "sim_TX_DELETE_ERROR = 0x11"
definition sim_TX_RESUME_ERROR :: UINT where "sim_TX_RESUME_ERROR = 0x12"
definition sim_TX_SUSPEND_ERROR :: UINT where "sim_TX_SUSPEND_ERROR = 0x14"
definition sim_TX_WAIT_ABORTED :: UINT where "sim_TX_WAIT_ABORTED = 0x1A"
definition sim_TX_NOT_AVAILABLE :: UINT where "sim_TX_NOT_AVAILABLE = 0x1D"
definition sim_TX_NOT_OWNED :: UINT where "sim_TX_NOT_OWNED = 0x1E"
definition sim_TX_CEILING_EXCEEDED :: UINT where "sim_TX_CEILING_EXCEEDED = 0x21"

definition upd_thread :: "addr \<Rightarrow> (TX_THREAD_STRUCT \<Rightarrow> TX_THREAD_STRUCT) \<Rightarrow> 'k memory \<Rightarrow> 'k memory" where
  "upd_thread t f s = s\<lparr>threads := (threads s)(t := f (threads s t))\<rparr>"

definition upd_mutex :: "addr \<Rightarrow> (TX_MUTEX_STRUCT \<Rightarrow> TX_MUTEX_STRUCT) \<Rightarrow> 'k memory \<Rightarrow> 'k memory" where
  "upd_mutex m f s = s\<lparr>mutexes := (mutexes s)(m := f (mutexes s m))\<rparr>"

definition upd_semaphore ::
  "addr \<Rightarrow> (TX_SEMAPHORE_STRUCT \<Rightarrow> TX_SEMAPHORE_STRUCT) \<Rightarrow> 'k memory \<Rightarrow> 'k memory" where
  "upd_semaphore m f s = s\<lparr>semaphores := (semaphores s)(m := f (semaphores s m))\<rparr>"

definition upd_private :: "('k \<Rightarrow> 'k) \<Rightarrow> 'k memory \<Rightarrow> 'k memory" where
  "upd_private f s = s\<lparr>kernel_private := f (kernel_private s)\<rparr>"

definition sim_thread_create ::
  "addr \<Rightarrow> string \<Rightarrow> funptr \<Rightarrow> ULONG \<Rightarrow> addr \<Rightarrow> ULONG \<Rightarrow> UINT \<Rightarrow> UINT \<Rightarrow> ULONG \<Rightarrow> UINT \<Rightarrow> sim_service" where
  "sim_thread_create t name entry input stack stack_size prio threshold time_slice auto_start s =
     (0, upd_private (\<lambda>k. k\<lparr>sim_notify := (sim_notify k)(t := Null_fn)\<rparr>)
           (upd_thread t (\<lambda>_. \<lparr>tx_thread_state = (if auto_start = 1 then 0 else sim_TX_SUSPENDED),
                                tx_thread_user_priority = prio, tx_thread_name = name,
                                entry_exit_param = 0\<rparr>) s))"

definition sim_thread_terminate :: "addr \<Rightarrow> sim_service" where
  "sim_thread_terminate t s = (0, upd_thread t (\<lambda>b. b\<lparr>tx_thread_state := 2\<rparr>) s)"

definition sim_thread_delete :: "addr \<Rightarrow> sim_service" where
  "sim_thread_delete t s =
     (if tx_thread_state (threads s t) = 1 \<or> tx_thread_state (threads s t) = 2
      then (0, s) else (sim_TX_DELETE_ERROR, s))"

definition sim_thread_suspend :: "addr \<Rightarrow> sim_service" where
  "sim_thread_suspend t s =
     (if tx_thread_state (threads s t) = 1 \<or> tx_thread_state (threads s t) = 2
      then (sim_TX_SUSPEND_ERROR, s)
      else (0, upd_thread t (\<lambda>b. b\<lparr>tx_thread_state := sim_TX_SUSPENDED\<rparr>) s))"

definition sim_thread_resume :: "addr \<Rightarrow> sim_service" where
  "sim_thread_resume t s =
     (if tx_thread_state (threads s t) = sim_TX_SUSPENDED
      then (0, upd_thread t (\<lambda>b. b\<lparr>tx_thread_state := 0\<rparr>) s)
      else (sim_TX_RESUME_ERROR, s))"

definition sim_thread_priority_change :: "addr \<Rightarrow> UINT \<Rightarrow> sim memory \<Rightarrow> (UINT \<times> UINT) \<times> sim memory" where
  "sim_thread_priority_change t prio s =
     ((0, tx_thread_user_priority (threads s t)),
      upd_thread t (\<lambda>b. b\<lparr>tx_thread_user_priority := prio\<rparr>) s)"

definition sim_thread_entry_exit_notify :: "addr \<Rightarrow> funptr \<Rightarrow> sim_service" where
  "sim_thread_entry_exit_notify t f s =
     (0, upd_private (\<lambda>k. k\<lparr>sim_notify := (sim_notify k)(t := f)\<rparr>) s)"

definition sim_thread_identify :: "sim memory \<Rightarrow> addr" where
  "sim_thread_identify s = sim_current (kernel_private s)"

definition sim_thread_sleep :: "ULONG \<Rightarrow> sim_service" where
  "sim_thread_sleep ticks s = (0, s)"

definition sim_thread_relinquish :: "sim memory \<Rightarrow> sim memory" where
  "sim_thread_relinquish s = s"

definition sim_mutex_create :: "addr \<Rightarrow> string \<Rightarrow> UINT \<Rightarrow> sim_service" where
  "sim_mutex_create m name inherit s =
     (0, upd_private (\<lambda>k. k\<lparr>sim_ownership_count := (sim_ownership_count k)(m := 0)\<rparr>)
           (upd_mutex m (\<lambda>_. \<lparr>tx_mutex_owner = 0\<rparr>) s))"

definition sim_mutex_get :: "addr \<Rightarrow> ULONG \<Rightarrow> sim_service" where
  "sim_mutex_get m wait s =
     (let cur = sim_current (kernel_private s); owner = tx_mutex_owner (mutexes s m) in
      if owner = 0 \<or> owner = cur
      then (0, upd_private (\<lambda>k. k\<lparr>sim_ownership_count :=
                                   (sim_ownership_count k)(m := Suc (sim_ownership_count k m))\<rparr>)
                 (upd_mutex m (\<lambda>_. \<lparr>tx_mutex_owner = cur\<rparr>) s))
      else (if wait = 0 then sim_TX_NOT_AVAILABLE else sim_TX_WAIT_ABORTED, s))"

definition sim_mutex_put :: "addr \<Rightarrow> sim_service" where
  "sim_mutex_put m s =
     (let cur = sim_current (kernel_private s); owner = tx_mutex_owner (mutexes s m);
          n = sim_ownership_count (kernel_private s) m in
      if owner = cur \<and> 0 < n
      then (0, upd_private (\<lambda>k. k\<lparr>sim_ownership_count := (sim_ownership_count k)(m := n - 1)\<rparr>)
                 (upd_mutex m (\<lambda>_. \<lparr>tx_mutex_owner = (if n = 1 then 0 else cur)\<rparr>) s))
      else (sim_TX_NOT_OWNED, s))"

definition sim_semaphore_create :: "addr \<Rightarrow> string \<Rightarrow> ULONG \<Rightarrow> sim_service" where
  "sim_semaphore_create m name initial s =
     (0, upd_semaphore m (\<lambda>_. \<lparr>tx_semaphore_count = initial\<rparr>) s)"

definition sim_semaphore_get :: "addr \<Rightarrow> ULONG \<Rightarrow> sim_service" where
  "sim_semaphore_get m wait s =
     (if tx_semaphore_count (semaphores s m) \<noteq> 0
      then (0, upd_semaphore m (\<lambda>b. b\<lparr>tx_semaphore_count := tx_semaphore_count b - 1\<rparr>) s)
      else (if wait = 0 then sim_TX_NO_INSTANCE else sim_TX_WAIT_ABORTED, s))"

definition sim_semaphore_put :: "addr \<Rightarrow> sim_service" where
  "sim_semaphore_put m s =
     (0, upd_semaphore m (\<lambda>b. b\<lparr>tx_semaphore_count := tx_semaphore_count b + 1\<rparr>) s)"

definition sim_kernel :: "sim kernel" where
  "sim_kernel =
     \<lparr>TX_SUCCESS = 0x00, TX_READY = 0, TX_COMPLETED = 1, TX_TERMINATED = 2, TX_THREAD_EXIT = 1,
      TX_WAIT_FOREVER = 0xFFFFFFFF, TX_NO_TIME_SLICE = 0, TX_AUTO_START = 1,
      TX_INHERIT = 1, TX_NO_INHERIT = 0,
      tx_thread_create = sim_thread_create,
      tx_thread_terminate = sim_thread_terminate,
      tx_thread_delete = sim_thread_delete,
      tx_thread_suspend = sim_thread_suspend,
      tx_thread_resume = sim_thread_resume,
      tx_thread_priority_change = sim_thread_priority_change,
      tx_thread_entry_exit_notify = sim_thread_entry_exit_notify,
      tx_thread_identify = sim_thread_identify,
      tx_thread_sleep = sim_thread_sleep,
      tx_thread_relinquish = sim_thread_relinquish,
      tx_mutex_create = sim_mutex_create,
      tx_mutex_get = sim_mutex_get,
      tx_mutex_put = sim_mutex_put,
      tx_semaphore_create = sim_semaphore_create,
      tx_semaphore_get = sim_semaphore_get,
      tx_semaphore_put = sim_semaphore_put\<rparr>"

text \<open>
  The memory at the start of the examples: every control block zeroed, and the thread at
  address \<open>16\<close> running.
\<close>

definition boot :: "sim memory" where
  "boot =
     \<lparr>threads = (\<lambda>_. \<lparr>tx_thread_state = 0, tx_thread_user_priority = 0, tx_thread_name = [],
                        entry_exit_param = 0\<rparr>),
      mutexes = (\<lambda>_. \<lparr>tx_mutex_owner = 0\<rparr>),
      semaphores = (\<lambda>_. \<lparr>tx_semaphore_count = 0\<rparr>),
      kernel_private = \<lparr>sim_current = 16, sim_notify = (\<lambda>_. Null_fn),
                         sim_ownership_count = (\<lambda>_. 0)\<rparr>\<rparr>"

text \<open>
  \<open>ceiling_kernel c\<close> is \<open>sim_kernel\<close> with a put that fails once the count has reached
  \<open>c\<close>: a kernel on which the release primitive can fail part of the way through.
\<close>

definition ceiling_kernel :: "ULONG \<Rightarrow> sim kernel" where
  "ceiling_kernel c =
     sim_kernel\<lparr>tx_semaphore_put :=
       (\<lambda>m s. if tx_semaphore_count (semaphores s m) < c then sim_semaphore_put m s
               else (sim_TX_CEILING_EXCEEDED, s))\<rparr>"

section \<open>Auxiliary notions for the statements\<close>

text \<open>
  \<open>puts K this n s\<close> is the memory after \<open>n\<close> successive calls of the kernel's put on the
  semaphore \<open>this\<close>; \<open>put_ok K this s j\<close> says that call number \<open>j\<close> (from 0) of such a
  run returns \<open>TX_SUCCESS\<close>; \<open>put_calls K this n s\<close> counts the calls up to and including
  the first that fails, at most \<open>n\<close>.
\<close>

primrec puts :: "'k kernel \<Rightarrow> addr \<Rightarrow> nat \<Rightarrow> 'k memory \<Rightarrow> 'k memory" where
  "puts K this 0 s = s"
| "puts K this (Suc n) s = puts K this n (snd (tx_semaphore_put K this s))"

primrec put_calls :: "'k kernel \<Rightarrow> addr \<Rightarrow> nat \<Rightarrow> 'k memory \<Rightarrow> nat" where
  "put_calls K this 0 s = 0"
| "put_calls K this (Suc n) s =
     (if fst (tx_semaphore_put K this s) = TX_SUCCESS K
      then Suc (put_calls K this n (snd (tx_semaphore_put K this s))) else 1)"

definition put_ok :: "'k kernel \<Rightarrow> addr \<Rightarrow> 'k memory \<Rightarrow> nat \<Rightarrow> bool" where
  "put_ok K this s j = (fst (tx_semaphore_put K this (puts K this j s)) = TX_SUCCESS K)"

text \<open>
  A client of one semaphore: it constructs a \<open>counting_semaphore<MAX_VALUE>\<close> and then
  applies a list of the public operations to it, collecting what each returns.
\<close>

datatype sem_op = Acquire | Try_acquire | Try_acquire_for duration | Release ULONG | Get_count

datatype sem_result = Done | Flag bool | Count ULONG

fun run_sem_op :: "'k kernel \<Rightarrow> addr \<Rightarrow> sem_op \<Rightarrow> ('k, sem_result) op" where
  "run_sem_op K this Acquire = bind (semaphore_acquire K this) (\<lambda>_. return Done)"
| "run_sem_op K this Try_acquire = bind (semaphore_try_acquire K this) (\<lambda>b. return (Flag b))"
| "run_sem_op K this (Try_acquire_for d) =
     bind (semaphore_try_acquire_for K this d) (\<lambda>b. return (Flag b))"
| "run_sem_op K this (Release n) = bind (semaphore_release K this n) (\<lambda>_. return Done)"
| "run_sem_op K this Get_count = bind (semaphore_get_count this) (\<lambda>c. return (Count c))"

fun run_sem_ops :: "'k kernel \<Rightarrow> addr \<Rightarrow> sem_op list \<Rightarrow> ('k, sem_result list) op" where
  "run_sem_ops K this [] = return []"
| "run_sem_ops K this (x # xs) =
     bind (run_sem_op K this x) (\<lambda>r. bind (run_sem_ops K this xs) (\<lambda>rs. return (r # rs)))"

definition semaphore_client ::
  "'k kernel \<Rightarrow> ULONG \<Rightarrow> addr \<Rightarrow> ULONG \<Rightarrow> sem_op list \<Rightarrow> ('k, sem_result list) op" where
  "semaphore_client K MAX_VALUE this desired ops =
     bind (counting_semaphore K MAX_VALUE this desired) (\<lambda>_. run_sem_ops K this ops)"

text \<open>The memory \<open>s\<close> with the kernel state of the thread \<open>t\<close> set to \<open>st\<close>.\<close>

definition with_state :: "addr \<Rightarrow> UINT \<Rightarrow> 'k memory \<Rightarrow> 'k memory" where
  "with_state t st s = upd_thread t (\<lambda>b. b\<lparr>tx_thread_state := st\<rparr>) s"

text \<open>
  The parts of \<open>thread::join\<close>, named so that its effect can be stated: the label
  \<open>get_state\<close> computes, the calls of \<open>tx_thread_identify\<close> it makes on the way, the value of
  \<open>joinable()\<close>, and the memory after \<open>set_entry_exit_callback\<close>, in which the parameter is
  stored only when the kernel accepted the registration.
\<close>

definition state_of :: "'k kernel \<Rightarrow> addr \<Rightarrow> 'k memory \<Rightarrow> thread_state" where
  "state_of K t s =
     (if tx_thread_state (threads s t) = TX_READY K
        then (if tx_thread_identify K s = t then running else ready)
      else if tx_thread_state (threads s t) = TX_COMPLETED K then completed
      else if tx_thread_state (threads s t) = TX_TERMINATED K then terminated
      else suspended)"

definition identify_calls :: "'k kernel \<Rightarrow> addr \<Rightarrow> 'k memory \<Rightarrow> kcall list" where
  "identify_calls K t s =
     (if tx_thread_state (threads s t) = TX_READY K then [Tx_thread_identify] else [])"

definition joinable_of :: "'k kernel \<Rightarrow> addr \<Rightarrow> 'k memory \<Rightarrow> bool" where
  "joinable_of K t s =
     (state_of K t s \<noteq> completed \<and> state_of K t s \<noteq> terminated
      \<and> entry_exit_param (threads s t) = 0)"

definition registered :: "'k kernel \<Rightarrow> addr \<Rightarrow> funptr \<Rightarrow> addr \<Rightarrow> 'k memory \<Rightarrow> 'k memory" where
  "registered K t func param s =
     (if fst (tx_thread_entry_exit_notify K t func s) = TX_SUCCESS K
      then set_entry_exit_param t param (snd (tx_thread_entry_exit_notify K t func s))
      else snd (tx_thread_entry_exit_notify K t func s))"

text \<open>
  \<open>exit_kernel target\<close> is \<open>sim_kernel\<close> with a get during which the thread \<open>target\<close> runs to
  completion: when the semaphore is empty and the caller is willing to wait, the kernel
  marks \<open>target\<close> completed, delivers its exit notification (running
  \<open>thread::join_exit_callback\<close> if that is the function registered for it), and then
  serves the request from what the notification has released.
\<close>

definition exit_notification :: "addr \<Rightarrow> sim memory \<Rightarrow> sim memory" where
  "exit_notification target s =
     (if sim_notify (kernel_private s) target = Join_exit_callback
      then fst (snd (thread_join_exit_callback sim_kernel target 1 (s, [])))
      else s)"

definition exit_kernel :: "addr \<Rightarrow> sim kernel" where
  "exit_kernel target =
     sim_kernel\<lparr>tx_semaphore_get :=
       (\<lambda>m wait s.
          if tx_semaphore_count (semaphores s m) \<noteq> 0 \<or> wait = 0 then sim_semaphore_get m wait s
          else sim_semaphore_get m wait (exit_notification target (with_state target 1 s)))\<rparr>"

section \<open>Basic facts\<close>

lemma call_eq:
  "call c service w = (fst (service (fst w)), snd (service (fst w)), snd w @ [c])"
  by (simp add: call_def split: prod.splits)

lemma mutex_get_eq:
  "mutex_get K this t w =
     (Inr (fst (tx_mutex_get K this (count t) (fst w)) = TX_SUCCESS K),
      snd (tx_mutex_get K this (count t) (fst w)),
      snd w @ [Tx_mutex_get this (count t)])"
  by (simp add: mutex_get_def call_eq to_ticks_def)

lemma semaphore_get_eq:
  "semaphore_get K this t w =
     (Inr (fst (tx_semaphore_get K this (count t) (fst w)) = TX_SUCCESS K),
      snd (tx_semaphore_get K this (count t) (fst w)),
      snd w @ [Tx_semaphore_get this (count t)])"
  by (simp add: semaphore_get_def call_eq to_ticks_def)

lemma sim_kernel_sel:
  "TX_SUCCESS sim_kernel = 0" "TX_READY sim_kernel = 0" "TX_COMPLETED sim_kernel = 1"
  "TX_TERMINATED sim_kernel = 2" "TX_THREAD_EXIT sim_kernel = 1"
  "TX_WAIT_FOREVER sim_kernel = 0xFFFFFFFF" "TX_NO_TIME_SLICE sim_kernel = 0"
  "TX_AUTO_START sim_kernel = 1" "TX_INHERIT sim_kernel = 1" "TX_NO_INHERIT sim_kernel = 0"
  "tx_thread_create sim_kernel = sim_thread_create"
  "tx_thread_terminate sim_kernel = sim_thread_terminate"
  "tx_thread_delete sim_kernel = sim_thread_delete"
  "tx_thread_suspend sim_kernel = sim_thread_suspend"
  "tx_thread_resume sim_kernel = sim_thread_resume"
  "tx_thread_priority_change sim_kernel = sim_thread_priority_change"
  "tx_thread_entry_exit_notify sim_kernel = sim_thread_entry_exit_notify"
  "tx_thread_identify sim_kernel = sim_thread_identify"
  "tx_thread_sleep sim_kernel = sim_thread_sleep"
  "tx_thread_relinquish sim_kernel = sim_thread_relinquish"
  "tx_mutex_create sim_kernel = sim_mutex_create"
  "tx_mutex_get sim_kernel = sim_mutex_get"
  "tx_mutex_put sim_kernel = sim_mutex_put"
  "tx_semaphore_create sim_kernel = sim_semaphore_create"
  "tx_semaphore_get sim_kernel = sim_semaphore_get"
  "tx_semaphore_put sim_kernel = sim_semaphore_put"
  by (simp_all add: sim_kernel_def)

lemmas sim_defs = sim_kernel_sel boot_def sim_mutex_get_def sim_mutex_put_def sim_mutex_create_def
  sim_semaphore_get_def sim_semaphore_put_def sim_semaphore_create_def
  sim_thread_create_def sim_thread_terminate_def sim_thread_delete_def sim_thread_suspend_def
  sim_thread_resume_def sim_thread_priority_change_def sim_thread_entry_exit_notify_def
  sim_thread_identify_def sim_thread_sleep_def sim_thread_relinquish_def
  upd_thread_def upd_mutex_def upd_semaphore_def upd_private_def

lemma unat_pos_Suc: "0 < (u :: ULONG) \<Longrightarrow> unat u = Suc (unat (u - 1))"
  by (simp add: unat_minus_one word_greater_zero_iff unat_gt_0)

lemma put_ok_shift: "put_ok K this s (Suc j) = put_ok K this (snd (tx_semaphore_put K this s)) j"
  by (simp add: put_ok_def)

lemma put_ok_0: "put_ok K this s 0 = (fst (tx_semaphore_put K this s) = TX_SUCCESS K)"
  by (simp add: put_ok_def)

lemma all_put_ok_Suc:
  "(\<forall>j<Suc n. put_ok K this s j) =
     (fst (tx_semaphore_put K this s) = TX_SUCCESS K
      \<and> (\<forall>j<n. put_ok K this (snd (tx_semaphore_put K this s)) j))"
  by (metis less_Suc_eq_0_disj put_ok_0 put_ok_shift)

lemma put_calls_le: "put_calls K this n s \<le> n"
  by (induction n arbitrary: s) simp_all

lemma puts_numeral:
  "puts K this (numeral k) s = puts K this (pred_numeral k) (snd (tx_semaphore_put K this s))"
  by (simp add: numeral_eq_Suc)

lemma put_calls_numeral:
  "put_calls K this (numeral k) s =
     (if fst (tx_semaphore_put K this s) = TX_SUCCESS K
      then Suc (put_calls K this (pred_numeral k) (snd (tx_semaphore_put K this s))) else 1)"
  by (simp add: numeral_eq_Suc)

lemma put_calls_earlier_ok: "Suc j < put_calls K this n s \<Longrightarrow> put_ok K this s j"
proof (induction n arbitrary: s j)
  case 0
  then show ?case by simp
next
  case (Suc n)
  show ?case
  proof (cases "fst (tx_semaphore_put K this s) = TX_SUCCESS K")
    case True
    show ?thesis
    proof (cases j)
      case 0
      with True show ?thesis by (simp add: put_ok_0)
    next
      case (Suc i)
      with Suc.prems True have "Suc i < put_calls K this n (snd (tx_semaphore_put K this s))"
        by simp
      then have "put_ok K this (snd (tx_semaphore_put K this s)) i" by (rule Suc.IH)
      with Suc show ?thesis by (simp add: put_ok_shift)
    qed
  next
    case False
    with Suc.prems show ?thesis by simp
  qed
qed

lemma put_calls_all_ok: "\<forall>j<n. put_ok K this s j \<Longrightarrow> put_calls K this n s = n"
proof (induction n arbitrary: s)
  case 0
  then show ?case by simp
next
  case (Suc n)
  then show ?case by (simp add: all_put_ok_Suc)
qed

lemma put_calls_last_failed:
  "\<not> (\<forall>j<n. put_ok K this s j) \<Longrightarrow>
     0 < put_calls K this n s \<and> \<not> put_ok K this s (put_calls K this n s - 1)"
proof (induction n arbitrary: s)
  case 0
  then show ?case by simp
next
  case (Suc n)
  show ?case
  proof (cases "fst (tx_semaphore_put K this s) = TX_SUCCESS K")
    case True
    with Suc.prems have "\<not> (\<forall>j<n. put_ok K this (snd (tx_semaphore_put K this s)) j)"
      by (simp add: all_put_ok_Suc)
    then have "0 < put_calls K this n (snd (tx_semaphore_put K this s))
        \<and> \<not> put_ok K this (snd (tx_semaphore_put K this s))
               (put_calls K this n (snd (tx_semaphore_put K this s)) - 1)"
      by (rule Suc.IH)
    then show ?thesis using True
      by (cases "put_calls K this n (snd (tx_semaphore_put K this s))") (simp_all add: put_ok_shift)
  next
    case False
    then show ?thesis by (simp add: put_ok_0)
  qed
qed

lemma put_loop_eq:
  "put_loop K this success u w =
     (if success
      then (\<forall>j<unat u. put_ok K this (fst w) j,
            puts K this (put_calls K this (unat u) (fst w)) (fst w),
            snd w @ replicate (put_calls K this (unat u) (fst w)) (Tx_semaphore_put this))
      else (False, w))"
proof (induction K this success u w rule: put_loop.induct)
  case (1 K this success update w)
  show ?case
  proof (cases "success \<and> 0 < update")
    case False
    then show ?thesis
      by (subst put_loop.simps) (auto simp: word_greater_zero_iff)
  next
    case True
    let ?r = "tx_semaphore_put K this (fst w)"
    from True have u: "unat update = Suc (unat (update - 1))" by (simp add: unat_pos_Suc)
    from True have succ: success by simp
    have step: "put_loop K this True update w =
        put_loop K this (TX_SUCCESS K = fst ?r) (update - 1) (snd ?r, snd w @ [Tx_semaphore_put this])"
      using True by (subst put_loop.simps) (simp add: call_eq)
    show ?thesis
    proof (cases "fst ?r = TX_SUCCESS K")
      case ok: True
      show ?thesis
        using "1.IH" [OF True] True ok
        by (simp add: succ step call_eq u all_put_ok_Suc replicate_append_same)
    next
      case bad: False
      then show ?thesis
        using "1.IH" [OF True] True
        by (simp add: succ step call_eq u all_put_ok_Suc)
    qed
  qed
qed

lemma semaphore_put_eq:
  "semaphore_put K this n (s, tr) =
     (Inr (\<forall>j<unat n. put_ok K this s j),
      puts K this (put_calls K this (unat n) s) s,
      tr @ replicate (put_calls K this (unat n) s) (Tx_semaphore_put this))"
  by (simp add: semaphore_put_def put_loop_eq)

lemma semaphore_release_eq:
  "semaphore_release K this n (s, tr) =
     (Inr (),
      puts K this (put_calls K this (unat n) s) s,
      tr @ replicate (put_calls K this (unat n) s) (Tx_semaphore_put this))"
  by (simp add: semaphore_release_def bind_def return_def semaphore_put_eq)

lemma ceiling_kernel_sel:
  "TX_SUCCESS (ceiling_kernel c) = 0"
  "tx_semaphore_put (ceiling_kernel c) =
     (\<lambda>m s. if tx_semaphore_count (semaphores s m) < c then sim_semaphore_put m s
             else (sim_TX_CEILING_EXCEEDED, s))"
  by (simp_all add: ceiling_kernel_def sim_kernel_def)



lemma semaphore_ctor_eq:
  "semaphore_ctor K this max_value desired name (s, tr) =
     (if fst (tx_semaphore_create K this name desired s) = TX_SUCCESS K
      then Inr () else Inl AssertionFailed,
      snd (tx_semaphore_create K this name desired s),
      tr @ [Tx_semaphore_create this name desired])"
  by (simp add: semaphore_ctor_def call_eq assert_def)


lemma thread_get_state_eq:
  "thread_get_state K t (s, tr) = (Inr (state_of K t s), s, tr @ identify_calls K t s)"
  by (simp add: thread_get_state_def thread_get_current_def bind_def return_def call_eq Let_def
      state_of_def identify_calls_def)

lemma thread_joinable_eq:
  "thread_joinable K t (s, tr) = (Inr (joinable_of K t s), s, tr @ identify_calls K t s)"
  by (auto simp: thread_joinable_def thread_get_state_eq bind_def return_def
      thread_get_entry_exit_param_def joinable_of_def)

lemma this_thread_get_id_eq:
  "this_thread_get_id K (s, tr) = (Inr (tx_thread_identify K s), s, tr @ [Tx_thread_identify])"
  by (simp add: this_thread_get_id_def thread_get_current_def thread_get_id_def bind_def
      return_def call_eq)

lemma thread_set_entry_exit_callback_eq:
  "thread_set_entry_exit_callback K t func param (s, tr) =
     (Inr (), registered K t func param s, tr @ [Tx_thread_entry_exit_notify t func])"
  by (simp add: thread_set_entry_exit_callback_def registered_def call_eq eq_commute [of "TX_SUCCESS K"])

lemma semaphore_acquire_eq:
  "semaphore_acquire K sem (s, tr) =
     (Inr (), snd (tx_semaphore_get K sem (TX_WAIT_FOREVER K) s),
      tr @ [Tx_semaphore_get sem (TX_WAIT_FOREVER K)])"
  by (simp add: semaphore_acquire_def bind_def return_def semaphore_get_eq infinity_def
      infinite_delay_def)

lemma thread_join_eq:
  "thread_join K this ec (s, tr) =
     (if \<not> joinable_of K this s
        then (Inl AssertionFailed, s, tr @ identify_calls K this s)
      else if this = tx_thread_identify K s
        then (Inl AssertionFailed, s, tr @ identify_calls K this s @ [Tx_thread_identify])
      else if fst (tx_semaphore_create K ec ''binary_semaphore'' 0 s) \<noteq> TX_SUCCESS K
        then (Inl AssertionFailed, snd (tx_semaphore_create K ec ''binary_semaphore'' 0 s),
              tr @ identify_calls K this s
                 @ [Tx_thread_identify, Tx_semaphore_create ec ''binary_semaphore'' 0])
      else (Inr (),
            snd (tx_semaphore_get K ec (TX_WAIT_FOREVER K)
                   (registered K this Join_exit_callback ec
                      (snd (tx_semaphore_create K ec ''binary_semaphore'' 0 s)))),
            tr @ identify_calls K this s
               @ [Tx_thread_identify, Tx_semaphore_create ec ''binary_semaphore'' 0,
                  Tx_thread_entry_exit_notify this Join_exit_callback,
                  Tx_semaphore_get ec (TX_WAIT_FOREVER K)]))"
  by (simp add: thread_join_def bind_def thread_joinable_eq assert_def thread_get_id_def
      return_def this_thread_get_id_eq binary_semaphore_def semaphore_ctor_eq
      thread_set_entry_exit_callback_eq semaphore_acquire_eq)

lemma thread_join_exit_callback_eq:
  "thread_join_exit_callback K t ident (s, tr) =
     (if ident = TX_THREAD_EXIT K
      then (Inr (), snd (tx_semaphore_put K (entry_exit_param (threads s t)) s),
            tr @ [Tx_semaphore_put (entry_exit_param (threads s t))])
      else (Inr (), s, tr))"
  by (simp add: thread_join_exit_callback_def bind_def return_def thread_get_entry_exit_param_def
      semaphore_release_eq)


lemma exit_kernel_sel:
  "TX_SUCCESS (exit_kernel x) = 0" "TX_READY (exit_kernel x) = 0"
  "TX_COMPLETED (exit_kernel x) = 1" "TX_TERMINATED (exit_kernel x) = 2"
  "TX_THREAD_EXIT (exit_kernel x) = 1" "TX_WAIT_FOREVER (exit_kernel x) = 0xFFFFFFFF"
  "tx_thread_entry_exit_notify (exit_kernel x) = sim_thread_entry_exit_notify"
  "tx_thread_identify (exit_kernel x) = sim_thread_identify"
  "tx_semaphore_create (exit_kernel x) = sim_semaphore_create"
  "tx_semaphore_put (exit_kernel x) = sim_semaphore_put"
  "tx_semaphore_get (exit_kernel x) =
     (\<lambda>m wait s.
        if tx_semaphore_count (semaphores s m) \<noteq> 0 \<or> wait = 0 then sim_semaphore_get m wait s
        else sim_semaphore_get m wait (exit_notification x (with_state x 1 s)))"
  by (simp_all add: exit_kernel_def sim_kernel_def)


lemma thread_dtor_trace:
  "snd (snd (thread_dtor K t (s, tr))) =
     tr @ (if tx_thread_state (threads s t) = TX_COMPLETED K then [Tx_thread_delete t]
           else if fst (tx_thread_terminate K t s) = TX_SUCCESS K
             then [Tx_thread_terminate t, Tx_thread_delete t]
           else [Tx_thread_terminate t])"
  by (simp add: thread_dtor_def bind_def return_def assert_def call_eq split_beta)


section \<open>Timeouts and the blocking variants\<close>

text \<open>
  Claim C6. Every wait time reaches the kernel as a tick count: \<open>to_ticks\<close> of a
  \<open>tick_timer::duration\<close> is its \<open>count()\<close>, \<open>to_ticks\<close> of a time point is \<open>to_ticks\<close> of
  its time since the epoch, and \<open>to_ticks infinity\<close> is \<open>TX_WAIT_FOREVER\<close>. The kernel
  calls that \<open>lock()\<close>, \<open>acquire()\<close>, \<open>sleep_for\<close>, \<open>try_lock_for\<close> and \<open>try_acquire_for\<close>
  make carry \<open>to_ticks\<close> of their wait time, and the memory they leave is the one the
  kernel returned for that tick count.
\<close>

theorem wait_times_are_tick_counts:
  "to_ticks d = count d
   \<and> to_ticks (Duration n) = n
   \<and> to_ticks_time_point tp = to_ticks (time_since_epoch tp)
   \<and> to_ticks (infinity K) = TX_WAIT_FOREVER K
   \<and> mutex_lock K m (s, tr) =
        (Inr (), snd (tx_mutex_get K m (to_ticks (infinity K)) s),
         tr @ [Tx_mutex_get m (to_ticks (infinity K))])
   \<and> semaphore_acquire K sem (s, tr) =
        (Inr (), snd (tx_semaphore_get K sem (to_ticks (infinity K)) s),
         tr @ [Tx_semaphore_get sem (to_ticks (infinity K))])
   \<and> snd (this_thread_sleep_for K d (s, tr)) =
        (snd (tx_thread_sleep K (to_ticks d) s), tr @ [Tx_thread_sleep (to_ticks d)])
   \<and> snd (mutex_try_lock_for K m d (s, tr)) =
        (snd (tx_mutex_get K m (to_ticks d) s), tr @ [Tx_mutex_get m (to_ticks d)])
   \<and> snd (semaphore_try_acquire_for K sem d (s, tr)) =
        (snd (tx_semaphore_get K sem (to_ticks d) s), tr @ [Tx_semaphore_get sem (to_ticks d)])"
  by (simp add: to_ticks_def to_ticks_time_point_def infinity_def infinite_delay_def
      mutex_lock_def semaphore_acquire_def bind_def return_def mutex_get_eq semaphore_get_eq
      this_thread_sleep_for_def mutex_try_lock_for_def semaphore_try_acquire_for_def
      call_eq assert_def split_beta)

theorem wait_times_are_tick_counts_witness:
  "to_ticks (Duration 250) = 250
   \<and> to_ticks_time_point (Time_point (Duration 7)) = 7
   \<and> to_ticks (infinity sim_kernel) = 0xFFFFFFFF
   \<and> snd (snd (mutex_lock sim_kernel 32 (boot, []))) = [Tx_mutex_get 32 0xFFFFFFFF]
   \<and> snd (snd (semaphore_acquire sim_kernel 48 (boot, []))) = [Tx_semaphore_get 48 0xFFFFFFFF]
   \<and> snd (snd (this_thread_sleep_for sim_kernel (Duration 250) (boot, []))) = [Tx_thread_sleep 250]
   \<and> snd (snd (mutex_try_lock_for sim_kernel 32 (Duration 250) (boot, []))) = [Tx_mutex_get 32 250]
   \<and> snd (snd (semaphore_try_acquire_for sim_kernel 48 (Duration 250) (boot, []))) =
        [Tx_semaphore_get 48 250]"
  using wait_times_are_tick_counts
    [of "Duration 250" 250 "Time_point (Duration 7)" sim_kernel 32 boot "[]" 48]
  by (simp add: sim_kernel_sel to_ticks_def)

text \<open>
  Claim C7. \<open>mutex::lock\<close> and \<open>semaphore::acquire\<close> are the timed \<open>get\<close> with the infinite
  timeout, its flag dropped; \<open>try_lock\<close> and \<open>try_acquire\<close> are the timed \<open>get\<close> with a
  timeout of zero ticks. The timed \<open>get\<close> is one kernel call and nothing around it: the
  memory after it is the memory the kernel returned, and its result is whether the status
  was \<open>TX_SUCCESS\<close>.
\<close>

theorem blocking_variants_forward_timeout:
  "mutex_lock K m w = (Inr (), snd (mutex_get K m (Duration (TX_WAIT_FOREVER K)) w))
   \<and> mutex_try_lock K m w = mutex_get K m (Duration 0) w
   \<and> semaphore_acquire K sem w = (Inr (), snd (semaphore_get K sem (Duration (TX_WAIT_FOREVER K)) w))
   \<and> semaphore_try_acquire K sem w = semaphore_get K sem (Duration 0) w
   \<and> mutex_get K m (Duration ticks) (s, tr) =
        (Inr (fst (tx_mutex_get K m ticks s) = TX_SUCCESS K),
         snd (tx_mutex_get K m ticks s), tr @ [Tx_mutex_get m ticks])
   \<and> semaphore_get K sem (Duration ticks) (s, tr) =
        (Inr (fst (tx_semaphore_get K sem ticks s) = TX_SUCCESS K),
         snd (tx_semaphore_get K sem ticks s), tr @ [Tx_semaphore_get sem ticks])"
  by (simp add: mutex_lock_def mutex_try_lock_def semaphore_acquire_def semaphore_try_acquire_def
      bind_def return_def infinity_def infinite_delay_def mutex_get_eq semaphore_get_eq)

theorem blocking_variants_forward_timeout_witness:
  "mutex_lock sim_kernel 32 (boot, []) =
     (Inr (), snd (mutex_get sim_kernel 32 (Duration 0xFFFFFFFF) (boot, [])))
   \<and> mutex_try_lock sim_kernel 32 (boot, []) = mutex_get sim_kernel 32 (Duration 0) (boot, [])
   \<and> fst (mutex_try_lock sim_kernel 32 (boot, [])) = Inr True
   \<and> snd (snd (mutex_try_lock sim_kernel 32 (boot, []))) = [Tx_mutex_get 32 0]
   \<and> fst (semaphore_try_acquire sim_kernel 48 (boot, [])) = Inr False
   \<and> snd (snd (semaphore_acquire sim_kernel 48 (boot, []))) = [Tx_semaphore_get 48 0xFFFFFFFF]"
  using blocking_variants_forward_timeout [of sim_kernel 32 "(boot, [])" 48 0 boot "[]"]
  by (simp add: sim_defs semaphore_get_eq mutex_get_eq Let_def sim_TX_NO_INSTANCE_def)

section \<open>Observers\<close>

text \<open>
  Claim C8. \<open>thread::get_priority\<close>, \<open>mutex::get_locking_thread\<close> and
  \<open>semaphore::get_count\<close> return the field the kernel maintains
  (\<open>tx_thread_user_priority\<close>, \<open>tx_mutex_owner\<close>, \<open>tx_semaphore_count\<close>) and leave the memory
  and the trace of kernel calls as they were: no field changes and no kernel call is made.
  The owner pointer returned is \<open>nullptr\<close> exactly when the stored one is.
\<close>

theorem observers_are_pure_reads:
  "fst (thread_get_priority t w) = Inr (tx_thread_user_priority (threads (fst w) t))
   \<and> snd (thread_get_priority t w) = w
   \<and> fst (mutex_get_locking_thread m w) = Inr (tx_mutex_owner (mutexes (fst w) m))
   \<and> snd (mutex_get_locking_thread m w) = w
   \<and> fst (semaphore_get_count sem w) = Inr (tx_semaphore_count (semaphores (fst w) sem))
   \<and> snd (semaphore_get_count sem w) = w"
  by (simp add: thread_get_priority_def mutex_get_locking_thread_def semaphore_get_count_def)

theorem observers_are_pure_reads_witness:
  "fst (thread_get_priority 16 (snd (thread_set_priority sim_kernel 16 5 (boot, [])))) = Inr 5
   \<and> snd (thread_get_priority 16 (snd (thread_set_priority sim_kernel 16 5 (boot, []))))
       = snd (thread_set_priority sim_kernel 16 5 (boot, []))
   \<and> fst (mutex_get_locking_thread 32 (boot, [])) = Inr 0
   \<and> fst (mutex_get_locking_thread 32 (snd (mutex_lock sim_kernel 32 (boot, [])))) = Inr 16
   \<and> snd (mutex_get_locking_thread 32 (snd (mutex_lock sim_kernel 32 (boot, []))))
       = snd (mutex_lock sim_kernel 32 (boot, []))
   \<and> fst (semaphore_get_count 48 (snd (semaphore_release sim_kernel 48 1 (boot, [])))) = Inr 1
   \<and> snd (semaphore_get_count 48 (snd (semaphore_release sim_kernel 48 1 (boot, []))))
       = snd (semaphore_release sim_kernel 48 1 (boot, []))"
  using observers_are_pure_reads [of 16 "snd (thread_set_priority sim_kernel 16 5 (boot, []))"
      32 48]
    observers_are_pure_reads [of 16 "(boot, [])" 32 48]
    observers_are_pure_reads [of 16 "snd (mutex_lock sim_kernel 32 (boot, []))" 32 48]
    observers_are_pure_reads [of 16 "snd (semaphore_release sim_kernel 48 1 (boot, []))" 32 48]
  by (simp add: thread_set_priority_def mutex_lock_def semaphore_release_eq
      bind_def return_def call_eq mutex_get_eq split_beta sim_defs Let_def)

section \<open>Thread state and destruction\<close>

text \<open>
  Claim C4. \<open>thread::get_state\<close> maps the kernel's \<open>tx_thread_state\<close> to one of the five
  states: \<open>TX_COMPLETED\<close> to \<open>completed\<close>, \<open>TX_TERMINATED\<close> to \<open>terminated\<close>, \<open>TX_READY\<close> to
  \<open>running\<close> when \<open>tx_thread_identify\<close> returns this thread and to \<open>ready\<close> otherwise, and
  every other value to \<open>suspended\<close>; the memory after the call is the memory before it.
  The three macros are the labels of one \<open>switch\<close>, hence pairwise different.
\<close>

theorem get_state_relabels_kernel_state:
  assumes "TX_READY K \<noteq> TX_COMPLETED K" and "TX_READY K \<noteq> TX_TERMINATED K"
    and "TX_COMPLETED K \<noteq> TX_TERMINATED K"
  shows "fst (thread_get_state K t (s, tr)) =
           Inr (if tx_thread_state (threads s t) = TX_COMPLETED K then completed
                else if tx_thread_state (threads s t) = TX_TERMINATED K then terminated
                else if tx_thread_state (threads s t) = TX_READY K
                  then (if tx_thread_identify K s = t then running else ready)
                else suspended)
         \<and> fst (snd (thread_get_state K t (s, tr))) = s"
  using assms
  by (simp add: thread_get_state_def thread_get_current_def bind_def return_def call_eq Let_def)

theorem get_state_relabels_kernel_state_witness:
  "fst (thread_get_state sim_kernel 16 (boot, [])) = Inr running
   \<and> fst (thread_get_state sim_kernel 64 (boot, [])) = Inr ready
   \<and> fst (thread_get_state sim_kernel 64 (with_state 64 1 boot, [])) = Inr completed
   \<and> fst (thread_get_state sim_kernel 64 (with_state 64 2 boot, [])) = Inr terminated
   \<and> fst (thread_get_state sim_kernel 64 (with_state 64 3 boot, [])) = Inr suspended
   \<and> fst (thread_get_state sim_kernel 64 (with_state 64 6 boot, [])) = Inr suspended
   \<and> fst (snd (thread_get_state sim_kernel 16 (boot, []))) = boot"
  using get_state_relabels_kernel_state [of sim_kernel 16 boot "[]"]
    get_state_relabels_kernel_state [of sim_kernel 64 boot "[]"]
    get_state_relabels_kernel_state [of sim_kernel 64 "with_state 64 1 boot" "[]"]
    get_state_relabels_kernel_state [of sim_kernel 64 "with_state 64 2 boot" "[]"]
    get_state_relabels_kernel_state [of sim_kernel 64 "with_state 64 3 boot" "[]"]
    get_state_relabels_kernel_state [of sim_kernel 64 "with_state 64 6 boot" "[]"]
  by (simp add: sim_defs with_state_def)

text \<open>
  Claim C10. The destructor calls \<open>tx_thread_terminate\<close> first exactly when the kernel
  state of the thread is not \<open>TX_COMPLETED\<close> (so also for a ready, a suspended and an
  already terminated thread) and asserts its success; it then calls \<open>tx_thread_delete\<close>
  and asserts its success. The only run without the delete is the one the failed
  assertion on the terminate has ended.
\<close>

theorem thread_dtor_terminate_then_delete:
  "thread_dtor K this (s, tr) =
     (if tx_thread_state (threads s this) = TX_COMPLETED K
      then (if fst (tx_thread_delete K this s) = TX_SUCCESS K then Inr () else Inl AssertionFailed,
            snd (tx_thread_delete K this s), tr @ [Tx_thread_delete this])
      else if fst (tx_thread_terminate K this s) = TX_SUCCESS K
      then (if fst (tx_thread_delete K this (snd (tx_thread_terminate K this s))) = TX_SUCCESS K
              then Inr () else Inl AssertionFailed,
            snd (tx_thread_delete K this (snd (tx_thread_terminate K this s))),
            tr @ [Tx_thread_terminate this, Tx_thread_delete this])
      else (Inl AssertionFailed, snd (tx_thread_terminate K this s),
            tr @ [Tx_thread_terminate this]))
   \<and> (Tx_thread_terminate this \<in> set (snd (snd (thread_dtor K this (s, []))))) =
       (tx_thread_state (threads s this) \<noteq> TX_COMPLETED K)"
  by (simp add: thread_dtor_def bind_def return_def assert_def call_eq split_beta)

theorem thread_dtor_terminate_then_delete_witness:
  "thread_dtor sim_kernel 16 (boot, []) =
     (Inr (), with_state 16 2 boot, [Tx_thread_terminate 16, Tx_thread_delete 16])
   \<and> thread_dtor sim_kernel 64 (with_state 64 3 boot, []) =
     (Inr (), with_state 64 2 boot, [Tx_thread_terminate 64, Tx_thread_delete 64])
   \<and> thread_dtor sim_kernel 64 (with_state 64 2 boot, []) =
     (Inr (), with_state 64 2 boot, [Tx_thread_terminate 64, Tx_thread_delete 64])
   \<and> thread_dtor sim_kernel 64 (with_state 64 1 boot, []) =
     (Inr (), with_state 64 1 boot, [Tx_thread_delete 64])"
  using thread_dtor_terminate_then_delete [of sim_kernel 16 boot "[]"]
    thread_dtor_terminate_then_delete [of sim_kernel 64 "with_state 64 3 boot" "[]"]
    thread_dtor_terminate_then_delete [of sim_kernel 64 "with_state 64 2 boot" "[]"]
    thread_dtor_terminate_then_delete [of sim_kernel 64 "with_state 64 1 boot" "[]"]
  by (simp add: sim_defs with_state_def)

section \<open>Semaphores: release and the ceiling\<close>

text \<open>
  Claim C5. \<open>semaphore::put(n)\<close> calls the kernel's put once per count and stops at the
  first call that fails: it makes \<open>put_calls\<close> calls, at most \<open>n\<close>, nothing but puts, all of
  them successful except possibly the last; it returns \<open>true\<close> exactly when all \<open>n\<close> calls
  succeeded, and after a failure the failed call is the last one (no retry, no other
  kernel call, and the memory is the one the successful puts left). \<open>release\<close> returns
  nothing either way. On a kernel whose put fails from a count of one on, \<open>release(3)\<close>
  on an empty semaphore makes two calls, leaves the count at one and returns normally.
\<close>

theorem release_stops_at_first_failure:
  "semaphore_put K this n (s, tr) =
     (Inr (\<forall>j<unat n. put_ok K this s j),
      puts K this (put_calls K this (unat n) s) s,
      tr @ replicate (put_calls K this (unat n) s) (Tx_semaphore_put this))
   \<and> semaphore_release K this n (s, tr) =
     (Inr (),
      puts K this (put_calls K this (unat n) s) s,
      tr @ replicate (put_calls K this (unat n) s) (Tx_semaphore_put this))
   \<and> put_calls K this (unat n) s \<le> unat n
   \<and> (\<forall>j. Suc j < put_calls K this (unat n) s \<longrightarrow> put_ok K this s j)
   \<and> ((\<forall>j<unat n. put_ok K this s j) \<longrightarrow> put_calls K this (unat n) s = unat n)
   \<and> (\<not> (\<forall>j<unat n. put_ok K this s j) \<longrightarrow>
        0 < put_calls K this (unat n) s
        \<and> \<not> put_ok K this s (put_calls K this (unat n) s - 1))
   \<and> fst (semaphore_release (ceiling_kernel 1) 48 3 (boot, [])) = Inr ()
   \<and> tx_semaphore_count
        (semaphores (fst (snd (semaphore_release (ceiling_kernel 1) 48 3 (boot, [])))) 48) = 1
   \<and> snd (snd (semaphore_release (ceiling_kernel 1) 48 3 (boot, []))) =
        [Tx_semaphore_put 48, Tx_semaphore_put 48]"
proof -
  have calls: "put_calls (ceiling_kernel 1) 48 3 boot = 2"
    by (simp add: put_calls_numeral ceiling_kernel_sel boot_def sim_semaphore_put_def
        upd_semaphore_def sim_TX_CEILING_EXCEEDED_def)
  have cnt: "tx_semaphore_count (semaphores (puts (ceiling_kernel 1) 48 2 boot) 48) = 1"
    by (simp add: puts_numeral ceiling_kernel_sel boot_def sim_semaphore_put_def upd_semaphore_def)
  have general:
    "put_calls K this (unat n) s \<le> unat n
     \<and> (\<forall>j. Suc j < put_calls K this (unat n) s \<longrightarrow> put_ok K this s j)
     \<and> ((\<forall>j<unat n. put_ok K this s j) \<longrightarrow> put_calls K this (unat n) s = unat n)
     \<and> (\<not> (\<forall>j<unat n. put_ok K this s j) \<longrightarrow>
          0 < put_calls K this (unat n) s
          \<and> \<not> put_ok K this s (put_calls K this (unat n) s - 1))"
    using put_calls_le [of K this "unat n" s] put_calls_earlier_ok [of _ K this "unat n" s]
      put_calls_all_ok [of "unat n" K this s] put_calls_last_failed [of "unat n" K this s]
    by blast
  have rep: "replicate 2 (Tx_semaphore_put 48) = [Tx_semaphore_put 48, Tx_semaphore_put 48]"
    by (simp add: numeral_2_eq_2)
  show ?thesis
    using general
    by (simp add: semaphore_put_eq semaphore_release_eq calls cnt rep)
qed

theorem release_stops_at_first_failure_witness:
  "semaphore_put (ceiling_kernel 1) 48 3 (boot, []) =
     (Inr False, puts (ceiling_kernel 1) 48 2 boot, [Tx_semaphore_put 48, Tx_semaphore_put 48])
   \<and> semaphore_release (ceiling_kernel 1) 48 3 (boot, []) =
     (Inr (), puts (ceiling_kernel 1) 48 2 boot, [Tx_semaphore_put 48, Tx_semaphore_put 48])
   \<and> put_ok (ceiling_kernel 1) 48 boot 0
   \<and> \<not> put_ok (ceiling_kernel 1) 48 boot 1
   \<and> tx_semaphore_count (semaphores (puts (ceiling_kernel 1) 48 2 boot) 48) = 1"
proof -
  have calls: "put_calls (ceiling_kernel 1) 48 (unat (3 :: ULONG)) boot = 2"
    by (simp add: put_calls_numeral ceiling_kernel_sel boot_def sim_semaphore_put_def
        upd_semaphore_def sim_TX_CEILING_EXCEEDED_def)
  have ok0: "put_ok (ceiling_kernel 1) 48 boot 0"
    by (simp add: put_ok_def ceiling_kernel_sel boot_def sim_semaphore_put_def)
  have bad1: "\<not> put_ok (ceiling_kernel 1) 48 boot 1"
    by (simp add: put_ok_def ceiling_kernel_sel boot_def sim_semaphore_put_def upd_semaphore_def
        sim_TX_CEILING_EXCEEDED_def)
  have "(1 :: nat) < unat (3 :: ULONG)" by simp
  with bad1 have bad: "\<not> (\<forall>j<unat (3 :: ULONG). put_ok (ceiling_kernel 1) 48 boot j)"
    by blast
  have cnt: "tx_semaphore_count (semaphores (puts (ceiling_kernel 1) 48 2 boot) 48) = 1"
    by (simp add: puts_numeral ceiling_kernel_sel boot_def sim_semaphore_put_def
        upd_semaphore_def)
  have rep: "replicate 2 (Tx_semaphore_put 48) = [Tx_semaphore_put 48, Tx_semaphore_put 48]"
    by (simp add: numeral_2_eq_2)
  show ?thesis
    using release_stops_at_first_failure [of "ceiling_kernel 1" 48 3 boot "[]"] calls ok0 bad1 bad cnt
    by (simp add: rep)
qed

text \<open>
  Claim C9. The constructor hands \<open>desired\<close> and the name to \<open>tx_semaphore_create\<close> and
  never uses \<open>max\<close>: constructing a \<open>counting_semaphore\<close> with ceiling \<open>M1\<close> or \<open>M2\<close> is the same
  operation, and so is every run of a client that constructs it and then applies any list
  of operations. On a kernel whose put has no ceiling, two releases bring the count
  reported by \<open>get_count\<close> to 2, above \<open>max()\<close>, for \<open>counting_semaphore<1>\<close> and for
  \<open>binary_semaphore\<close>.
\<close>

theorem semaphore_ctor_ignores_max:
  "counting_semaphore K M1 this desired w = counting_semaphore K M2 this desired w
   \<and> semaphore_client K M1 this desired ops w = semaphore_client K M2 this desired ops w
   \<and> counting_semaphore K M1 this desired (s, tr) =
       (if fst (tx_semaphore_create K this ''counting_semaphore'' desired s) = TX_SUCCESS K
        then Inr () else Inl AssertionFailed,
        snd (tx_semaphore_create K this ''counting_semaphore'' desired s),
        tr @ [Tx_semaphore_create this ''counting_semaphore'' desired])
   \<and> fst (semaphore_client sim_kernel 1 48 0 [Release 1, Release 1, Get_count] (boot, []))
       = Inr [Done, Done, Count 2]
   \<and> counting_semaphore_max 1 < 2
   \<and> fst (bind (binary_semaphore sim_kernel 48 0)
             (\<lambda>_. run_sem_ops sim_kernel 48 [Release 2, Get_count]) (boot, []))
       = Inr [Done, Count 2]
   \<and> binary_semaphore_max < 2"
proof -
  have same: "counting_semaphore K M1 this desired = counting_semaphore K M2 this desired"
    by (rule ext) (simp add: counting_semaphore_def semaphore_ctor_def)
  have run1: "fst (semaphore_client sim_kernel 1 48 0 [Release 1, Release 1, Get_count] (boot, []))
       = Inr [Done, Done, Count 2]"
    by (simp add: semaphore_client_def counting_semaphore_def semaphore_ctor_eq bind_def
        return_def semaphore_release_eq semaphore_get_count_def puts_numeral put_calls_numeral
        sim_defs)
  have run2: "fst (bind (binary_semaphore sim_kernel 48 0)
             (\<lambda>_. run_sem_ops sim_kernel 48 [Release 2, Get_count]) (boot, []))
       = Inr [Done, Count 2]"
    by (simp add: binary_semaphore_def semaphore_ctor_eq bind_def
        return_def semaphore_release_eq semaphore_get_count_def puts_numeral put_calls_numeral
        sim_defs)
  have client: "semaphore_client K M1 this desired ops w = semaphore_client K M2 this desired ops w"
    by (simp only: semaphore_client_def same)
  have ctor: "counting_semaphore K M1 this desired (s, tr) =
       (if fst (tx_semaphore_create K this ''counting_semaphore'' desired s) = TX_SUCCESS K
        then Inr () else Inl AssertionFailed,
        snd (tx_semaphore_create K this ''counting_semaphore'' desired s),
        tr @ [Tx_semaphore_create this ''counting_semaphore'' desired])"
    by (simp only: counting_semaphore_def semaphore_ctor_eq)
  have maxes: "counting_semaphore_max 1 < 2" "binary_semaphore_max < 2"
    by (simp_all add: counting_semaphore_max_def binary_semaphore_max_def)
  from same have "counting_semaphore K M1 this desired w = counting_semaphore K M2 this desired w"
    by simp
  with client ctor run1 run2 maxes show ?thesis by blast
qed

theorem semaphore_ctor_ignores_max_witness:
  "counting_semaphore sim_kernel 1 48 0 (boot, []) = counting_semaphore sim_kernel 1000 48 0 (boot, [])
   \<and> semaphore_client sim_kernel 1 48 0 [Release 1, Try_acquire, Get_count] (boot, [])
       = semaphore_client sim_kernel 1000 48 0 [Release 1, Try_acquire, Get_count] (boot, [])
   \<and> snd (snd (counting_semaphore sim_kernel 1 48 0 (boot, [])))
       = [Tx_semaphore_create 48 ''counting_semaphore'' 0]"
proof -
  note inst = semaphore_ctor_ignores_max
    [of sim_kernel 1 48 0 "(boot, [])" 1000 "[Release 1, Try_acquire, Get_count]" boot "[]"]
  from inst have "counting_semaphore sim_kernel 1 48 0 (boot, []) =
       (if fst (tx_semaphore_create sim_kernel 48 ''counting_semaphore'' 0 boot) = TX_SUCCESS sim_kernel
        then Inr () else Inl AssertionFailed,
        snd (tx_semaphore_create sim_kernel 48 ''counting_semaphore'' 0 boot),
        [] @ [Tx_semaphore_create 48 ''counting_semaphore'' 0])"
    by blast
  then have "snd (snd (counting_semaphore sim_kernel 1 48 0 (boot, [])))
       = [Tx_semaphore_create 48 ''counting_semaphore'' 0]"
    by simp
  with inst show ?thesis by blast
qed

section \<open>thread::join\<close>

text \<open>
  The mechanism of \<open>join\<close>, for every kernel. A \<open>join\<close> that returns has made, after the
  queries of its two assertions, exactly three kernel calls: the creation of the local
  binary semaphore with initial count 0, the registration of \<open>join_exit_callback\<close> on the
  target thread, and the get on that semaphore with the infinite timeout. When the kernel
  accepts the registration, the parameter stored in the thread is the address of that
  semaphore. The callback, called with \<open>TX_THREAD_EXIT\<close>, makes one kernel put on the
  semaphore stored as the parameter of its thread, and called with any other id it leaves
  memory and trace unchanged. The example runs \<open>join\<close> on a kernel where the target exits
  during the wait.
\<close>

theorem join_waits_on_local_semaphore:
  assumes "fst (thread_join K this ec (s, tr)) = Inr ()"
  shows "snd (snd (thread_join K this ec (s, tr))) =
           tr @ identify_calls K this s
              @ [Tx_thread_identify, Tx_semaphore_create ec ''binary_semaphore'' 0,
                 Tx_thread_entry_exit_notify this Join_exit_callback,
                 Tx_semaphore_get ec (TX_WAIT_FOREVER K)]
         \<and> fst (snd (thread_join K this ec (s, tr))) =
             snd (tx_semaphore_get K ec (TX_WAIT_FOREVER K)
                    (registered K this Join_exit_callback ec
                       (snd (tx_semaphore_create K ec ''binary_semaphore'' 0 s))))
         \<and> (fst (tx_thread_entry_exit_notify K this Join_exit_callback
                    (snd (tx_semaphore_create K ec ''binary_semaphore'' 0 s))) = TX_SUCCESS K
              \<longrightarrow> entry_exit_param
                    (threads (registered K this Join_exit_callback ec
                                (snd (tx_semaphore_create K ec ''binary_semaphore'' 0 s))) this) = ec)
         \<and> thread_join_exit_callback K t (TX_THREAD_EXIT K) (s', tr') =
             (Inr (), snd (tx_semaphore_put K (entry_exit_param (threads s' t)) s'),
              tr' @ [Tx_semaphore_put (entry_exit_param (threads s' t))])
         \<and> (ident \<noteq> TX_THREAD_EXIT K \<longrightarrow> thread_join_exit_callback K t ident w = (Inr (), w))"
proof -
  have reg: "fst (tx_thread_entry_exit_notify K this Join_exit_callback s1) = TX_SUCCESS K
      \<longrightarrow> entry_exit_param (threads (registered K this Join_exit_callback ec s1) this) = ec" for s1
    by (simp add: registered_def set_entry_exit_param_def)
  have other: "ident \<noteq> TX_THREAD_EXIT K \<longrightarrow> thread_join_exit_callback K t ident w = (Inr (), w)"
    by (cases w) (simp add: thread_join_exit_callback_eq)
  from assms have run: "snd (thread_join K this ec (s, tr)) =
      (snd (tx_semaphore_get K ec (TX_WAIT_FOREVER K)
              (registered K this Join_exit_callback ec
                 (snd (tx_semaphore_create K ec ''binary_semaphore'' 0 s)))),
       tr @ identify_calls K this s
          @ [Tx_thread_identify, Tx_semaphore_create ec ''binary_semaphore'' 0,
             Tx_thread_entry_exit_notify this Join_exit_callback,
             Tx_semaphore_get ec (TX_WAIT_FOREVER K)])"
    by (simp add: thread_join_eq split: if_splits)
  show ?thesis
    using reg other by (simp add: run thread_join_exit_callback_eq)
qed

theorem join_waits_on_local_semaphore_witness:
  "fst (thread_join (exit_kernel 64) 64 96 (boot, [])) = Inr ()
   \<and> snd (snd (thread_join (exit_kernel 64) 64 96 (boot, []))) =
       [Tx_thread_identify, Tx_thread_identify, Tx_semaphore_create 96 ''binary_semaphore'' 0,
        Tx_thread_entry_exit_notify 64 Join_exit_callback, Tx_semaphore_get 96 0xFFFFFFFF]
   \<and> tx_thread_state (threads (fst (snd (thread_join (exit_kernel 64) 64 96 (boot, [])))) 64) = 1
   \<and> entry_exit_param (threads (fst (snd (thread_join (exit_kernel 64) 64 96 (boot, [])))) 64) = 96
   \<and> tx_semaphore_count (semaphores (fst (snd (thread_join (exit_kernel 64) 64 96 (boot, [])))) 96) = 0
   \<and> snd (snd (thread_join_exit_callback (exit_kernel 64) 64 1 (boot, []))) = [Tx_semaphore_put 0]
   \<and> thread_join_exit_callback (exit_kernel 64) 64 0 (boot, []) = (Inr (), boot, [])"
proof -
  let ?K = "exit_kernel 64"
  let ?final = "snd (tx_semaphore_get ?K 96 (TX_WAIT_FOREVER ?K)
                  (registered ?K 64 Join_exit_callback 96
                     (snd (tx_semaphore_create ?K 96 ''binary_semaphore'' 0 boot))))"
  have ret: "fst (thread_join ?K 64 96 (boot, [])) = Inr ()"
    by (simp add: thread_join_eq joinable_of_def state_of_def exit_kernel_sel sim_defs)
  note inst = join_waits_on_local_semaphore [OF ret, of 64 boot "[]" 0 "(boot, [])"]
  have ids: "identify_calls ?K 64 boot = [Tx_thread_identify]"
    by (simp add: identify_calls_def exit_kernel_sel boot_def)
  from inst have "snd (snd (thread_join ?K 64 96 (boot, []))) =
      [] @ identify_calls ?K 64 boot
         @ [Tx_thread_identify, Tx_semaphore_create 96 ''binary_semaphore'' 0,
            Tx_thread_entry_exit_notify 64 Join_exit_callback,
            Tx_semaphore_get 96 (TX_WAIT_FOREVER ?K)]"
    by blast
  then have trace: "snd (snd (thread_join ?K 64 96 (boot, []))) =
       [Tx_thread_identify, Tx_thread_identify, Tx_semaphore_create 96 ''binary_semaphore'' 0,
        Tx_thread_entry_exit_notify 64 Join_exit_callback, Tx_semaphore_get 96 0xFFFFFFFF]"
    by (simp add: ids exit_kernel_sel)
  from inst have mem: "fst (snd (thread_join ?K 64 96 (boot, []))) = ?final"
    by blast
  have st: "tx_thread_state (threads ?final 64) = 1"
    by (simp add: registered_def exit_kernel_sel exit_notification_def with_state_def
        set_entry_exit_param_def thread_join_exit_callback_eq sim_defs)
  have par: "entry_exit_param (threads ?final 64) = 96"
    by (simp add: registered_def exit_kernel_sel exit_notification_def with_state_def
        set_entry_exit_param_def thread_join_exit_callback_eq sim_defs)
  have cnt: "tx_semaphore_count (semaphores ?final 96) = 0"
    by (simp add: registered_def exit_kernel_sel exit_notification_def with_state_def
        set_entry_exit_param_def thread_join_exit_callback_eq sim_defs)
  from inst have "thread_join_exit_callback ?K 64 (TX_THREAD_EXIT ?K) (boot, []) =
      (Inr (), snd (tx_semaphore_put ?K (entry_exit_param (threads boot 64)) boot),
       [] @ [Tx_semaphore_put (entry_exit_param (threads boot 64))])"
    by blast
  then have cb: "snd (snd (thread_join_exit_callback ?K 64 1 (boot, []))) = [Tx_semaphore_put 0]"
    by (simp add: exit_kernel_sel boot_def)
  from inst have "0 \<noteq> TX_THREAD_EXIT ?K \<longrightarrow>
      thread_join_exit_callback ?K 64 0 (boot, []) = (Inr (), boot, [])"
    by blast
  then have other: "thread_join_exit_callback ?K 64 0 (boot, []) = (Inr (), boot, [])"
    by (simp add: exit_kernel_sel)
  show ?thesis
    using ret trace st par cnt cb other by (simp add: mem)
qed

text \<open>
  Claim C1. \<open>join\<close> is to return only after the exit notification of the target has
  fired: \<open>thread.h\<close> documents it as "Waits for the thread to finish execution", and the
  comments in its body read "wait for signal from thread exit" and "signal received,
  thread is deleted, return". The code does not ensure it. \<open>join\<close> waits with \<open>acquire()\<close>,
  which drops the flag of \<open>get\<close>, and never looks at the status of \<open>tx_semaphore_get\<close>.
  Evaluated where the wait of the joining thread ends with \<open>TX_WAIT_ABORTED\<close>, \<open>join\<close> on the
  thread at \<open>64\<close> returns normally while that thread is still ready: the semaphore at \<open>96\<close>
  has count 0 and no put was made. The thread keeps \<open>96\<close>, the address of the local
  semaphore of the \<open>join\<close> that has returned, as its parameter, and its exit notification
  would still put on that address.
\<close>

theorem join_returns_without_exit_notification:
  "fst (thread_join sim_kernel 64 96 (boot, [])) = Inr ()
   \<and> fst (tx_semaphore_get sim_kernel 96 (TX_WAIT_FOREVER sim_kernel)
             (registered sim_kernel 64 Join_exit_callback 96
                (snd (tx_semaphore_create sim_kernel 96 ''binary_semaphore'' 0 boot))))
       = sim_TX_WAIT_ABORTED
   \<and> tx_thread_state (threads (fst (snd (thread_join sim_kernel 64 96 (boot, [])))) 64)
       = TX_READY sim_kernel
   \<and> fst (thread_get_state sim_kernel 64 (snd (thread_join sim_kernel 64 96 (boot, []))))
       = Inr ready
   \<and> fst (semaphore_get_count 96 (snd (thread_join sim_kernel 64 96 (boot, [])))) = Inr 0
   \<and> Tx_semaphore_put 96 \<notin> set (snd (snd (thread_join sim_kernel 64 96 (boot, []))))
   \<and> fst (thread_get_entry_exit_param 64 (snd (thread_join sim_kernel 64 96 (boot, []))))
       = Inr 96
   \<and> snd (snd (thread_join_exit_callback sim_kernel 64 (TX_THREAD_EXIT sim_kernel)
                   (fst (snd (thread_join sim_kernel 64 96 (boot, []))), [])))
       = [Tx_semaphore_put 96]"
  by (simp add: thread_join_eq thread_get_state_eq semaphore_get_count_def joinable_of_def
      state_of_def identify_calls_def registered_def set_entry_exit_param_def
      thread_get_entry_exit_param_def thread_join_exit_callback_eq sim_defs)

section \<open>Kernel calls and status codes\<close>

text \<open>
  Claim C2 says that no operation makes more than one kernel call. As stated this fails:
  \<open>release(2)\<close> makes two calls of \<open>tx_semaphore_put\<close>, and the destructor of a thread that
  is not completed calls \<open>tx_thread_terminate\<close> and \<open>tx_thread_delete\<close>.
\<close>

theorem more_than_one_kernel_call:
  "snd (snd (semaphore_release sim_kernel 48 2 (boot, []))) =
     [Tx_semaphore_put 48, Tx_semaphore_put 48]
   \<and> \<not> length (snd (snd (semaphore_release sim_kernel 48 2 (boot, [])))) \<le> 1
   \<and> snd (snd (thread_dtor sim_kernel 16 (boot, []))) = [Tx_thread_terminate 16, Tx_thread_delete 16]
   \<and> \<not> length (snd (snd (thread_dtor sim_kernel 16 (boot, [])))) \<le> 1"
proof -
  have calls: "put_calls sim_kernel 48 2 boot = 2"
    by (simp add: put_calls_numeral sim_kernel_sel sim_semaphore_put_def)
  have rep: "replicate 2 (Tx_semaphore_put 48) = [Tx_semaphore_put 48, Tx_semaphore_put 48]"
    by (simp add: numeral_2_eq_2)
  have rel: "snd (snd (semaphore_release sim_kernel 48 2 (boot, []))) =
     [Tx_semaphore_put 48, Tx_semaphore_put 48]"
    by (simp add: semaphore_release_eq calls rep)
  have dtor: "snd (snd (thread_dtor sim_kernel 16 (boot, []))) =
      [Tx_thread_terminate 16, Tx_thread_delete 16]"
    by (simp add: thread_dtor_trace sim_defs)
  show ?thesis by (simp add: rel dtor)
qed

text \<open>
  Claim C2, amended. The kernel calls of each operation: exactly one for the mutex and
  semaphore operations \<open>lock\<close>, \<open>try_lock\<close>, \<open>try_lock_for\<close>, \<open>unlock\<close>, \<open>acquire\<close>,
  \<open>try_acquire\<close>, \<open>try_acquire_for\<close> and the constructors, for the thread constructor,
  \<open>suspend\<close>, \<open>resume\<close>, \<open>set_priority\<close>, \<open>yield\<close>, \<open>sleep_for\<close>, \<open>get_current\<close> and
  \<open>this_thread::get_id\<close>; none for \<open>get_priority\<close>, \<open>get_locking_thread\<close>, \<open>get_count\<close>,
  \<open>thread::get_id\<close> and \<open>get_name\<close>; at most one (\<open>tx_thread_identify\<close>, for a ready thread)
  for \<open>get_state\<close> and \<open>joinable\<close>; for \<open>release(n)\<close> one put per count up to the first
  failure, at most \<open>n\<close> and exactly \<open>n\<close> when all succeed; for the destructor one or two;
  for a \<open>join\<close> that returns, four or five.
\<close>

theorem kernel_calls_per_operation:
  "snd (snd (mutex_lock K m (s, tr))) = tr @ [Tx_mutex_get m (TX_WAIT_FOREVER K)]
   \<and> snd (snd (mutex_try_lock K m (s, tr))) = tr @ [Tx_mutex_get m 0]
   \<and> snd (snd (mutex_try_lock_for K m d (s, tr))) = tr @ [Tx_mutex_get m (to_ticks d)]
   \<and> snd (snd (mutex_unlock K m (s, tr))) = tr @ [Tx_mutex_put m]
   \<and> snd (snd (mutex_ctor K m (s, tr))) = tr @ [Tx_mutex_create m ''mutex'' (TX_INHERIT K)]
   \<and> snd (snd (semaphore_acquire K sem (s, tr))) = tr @ [Tx_semaphore_get sem (TX_WAIT_FOREVER K)]
   \<and> snd (snd (semaphore_try_acquire K sem (s, tr))) = tr @ [Tx_semaphore_get sem 0]
   \<and> snd (snd (semaphore_try_acquire_for K sem d (s, tr))) = tr @ [Tx_semaphore_get sem (to_ticks d)]
   \<and> snd (snd (semaphore_ctor K sem max_value desired name (s, tr))) =
        tr @ [Tx_semaphore_create sem name desired]
   \<and> snd (snd (thread_ctor K t pstack stack_size func param prio name (s, tr))) =
        tr @ [Tx_thread_create t name func param pstack stack_size prio prio
                (TX_NO_TIME_SLICE K) (TX_AUTO_START K)]
   \<and> snd (snd (thread_suspend K t (s, tr))) = tr @ [Tx_thread_suspend t]
   \<and> snd (snd (thread_resume K t (s, tr))) = tr @ [Tx_thread_resume t]
   \<and> snd (snd (thread_set_priority K t prio (s, tr))) = tr @ [Tx_thread_priority_change t prio]
   \<and> snd (snd (this_thread_yield K (s, tr))) = tr @ [Tx_thread_relinquish]
   \<and> snd (snd (this_thread_sleep_for K d (s, tr))) = tr @ [Tx_thread_sleep (to_ticks d)]
   \<and> snd (snd (thread_get_current K (s, tr))) = tr @ [Tx_thread_identify]
   \<and> snd (snd (this_thread_get_id K (s, tr))) = tr @ [Tx_thread_identify]
   \<and> snd (snd (thread_get_priority t (s, tr))) = tr
   \<and> snd (snd (mutex_get_locking_thread m (s, tr))) = tr
   \<and> snd (snd (semaphore_get_count sem (s, tr))) = tr
   \<and> snd (snd (thread_get_id t (s, tr))) = tr
   \<and> snd (snd (thread_get_name t (s, tr))) = tr
   \<and> snd (snd (thread_get_state K t (s, tr))) =
        tr @ (if tx_thread_state (threads s t) = TX_READY K then [Tx_thread_identify] else [])
   \<and> snd (snd (thread_joinable K t (s, tr))) =
        tr @ (if tx_thread_state (threads s t) = TX_READY K then [Tx_thread_identify] else [])
   \<and> snd (snd (semaphore_release K sem n (s, tr))) =
        tr @ replicate (put_calls K sem (unat n) s) (Tx_semaphore_put sem)
   \<and> put_calls K sem (unat n) s \<le> unat n
   \<and> ((\<forall>j<unat n. put_ok K sem s j) \<longrightarrow> put_calls K sem (unat n) s = unat n)
   \<and> snd (snd (thread_dtor K t (s, tr))) =
        tr @ (if tx_thread_state (threads s t) = TX_COMPLETED K then [Tx_thread_delete t]
              else if fst (tx_thread_terminate K t s) = TX_SUCCESS K
                then [Tx_thread_terminate t, Tx_thread_delete t]
              else [Tx_thread_terminate t])
   \<and> (fst (thread_join K t ec (s, tr)) = Inr () \<longrightarrow>
        snd (snd (thread_join K t ec (s, tr))) =
          tr @ (if tx_thread_state (threads s t) = TX_READY K then [Tx_thread_identify] else [])
             @ [Tx_thread_identify, Tx_semaphore_create ec ''binary_semaphore'' 0,
                Tx_thread_entry_exit_notify t Join_exit_callback,
                Tx_semaphore_get ec (TX_WAIT_FOREVER K)])"
proof -
  have one: "snd (snd (mutex_lock K m (s, tr))) = tr @ [Tx_mutex_get m (TX_WAIT_FOREVER K)]"
    "snd (snd (mutex_try_lock K m (s, tr))) = tr @ [Tx_mutex_get m 0]"
    "snd (snd (mutex_try_lock_for K m d (s, tr))) = tr @ [Tx_mutex_get m (to_ticks d)]"
    "snd (snd (mutex_unlock K m (s, tr))) = tr @ [Tx_mutex_put m]"
    "snd (snd (mutex_ctor K m (s, tr))) = tr @ [Tx_mutex_create m ''mutex'' (TX_INHERIT K)]"
    "snd (snd (semaphore_acquire K sem (s, tr))) = tr @ [Tx_semaphore_get sem (TX_WAIT_FOREVER K)]"
    "snd (snd (semaphore_try_acquire K sem (s, tr))) = tr @ [Tx_semaphore_get sem 0]"
    "snd (snd (semaphore_try_acquire_for K sem d (s, tr))) = tr @ [Tx_semaphore_get sem (to_ticks d)]"
    by (simp_all add: mutex_lock_def mutex_try_lock_def mutex_try_lock_for_def mutex_unlock_def
        mutex_ctor_def mutex_DEFAULT_NAME_def semaphore_acquire_eq semaphore_try_acquire_def
        semaphore_try_acquire_for_def mutex_get_eq semaphore_get_eq bind_def return_def
        assert_def call_eq split_beta Let_def infinity_def infinite_delay_def to_ticks_def)
  have one': "snd (snd (semaphore_ctor K sem max_value desired name (s, tr))) =
        tr @ [Tx_semaphore_create sem name desired]"
    "snd (snd (thread_ctor K t pstack stack_size func param prio name (s, tr))) =
        tr @ [Tx_thread_create t name func param pstack stack_size prio prio
                (TX_NO_TIME_SLICE K) (TX_AUTO_START K)]"
    "snd (snd (thread_suspend K t (s, tr))) = tr @ [Tx_thread_suspend t]"
    "snd (snd (thread_resume K t (s, tr))) = tr @ [Tx_thread_resume t]"
    "snd (snd (thread_set_priority K t prio (s, tr))) = tr @ [Tx_thread_priority_change t prio]"
    "snd (snd (this_thread_yield K (s, tr))) = tr @ [Tx_thread_relinquish]"
    "snd (snd (this_thread_sleep_for K d (s, tr))) = tr @ [Tx_thread_sleep (to_ticks d)]"
    "snd (snd (thread_get_current K (s, tr))) = tr @ [Tx_thread_identify]"
    "snd (snd (this_thread_get_id K (s, tr))) = tr @ [Tx_thread_identify]"
    by (simp_all add: semaphore_ctor_eq thread_ctor_def thread_suspend_def thread_resume_def
        thread_set_priority_def this_thread_yield_def this_thread_sleep_for_def
        thread_get_current_def this_thread_get_id_eq assert_def call_eq split_beta)
  have none: "snd (snd (thread_get_priority t (s, tr))) = tr"
    "snd (snd (mutex_get_locking_thread m (s, tr))) = tr"
    "snd (snd (semaphore_get_count sem (s, tr))) = tr"
    "snd (snd (thread_get_id t (s, tr))) = tr"
    "snd (snd (thread_get_name t (s, tr))) = tr"
    by (simp_all add: thread_get_priority_def mutex_get_locking_thread_def semaphore_get_count_def
        thread_get_id_def thread_get_name_def return_def)
  have upto: "snd (snd (thread_get_state K t (s, tr))) =
        tr @ (if tx_thread_state (threads s t) = TX_READY K then [Tx_thread_identify] else [])"
    "snd (snd (thread_joinable K t (s, tr))) =
        tr @ (if tx_thread_state (threads s t) = TX_READY K then [Tx_thread_identify] else [])"
    by (simp_all add: thread_get_state_eq thread_joinable_eq identify_calls_def)
  have rel: "snd (snd (semaphore_release K sem n (s, tr))) =
        tr @ replicate (put_calls K sem (unat n) s) (Tx_semaphore_put sem)"
    by (simp add: semaphore_release_eq)
  have bound: "put_calls K sem (unat n) s \<le> unat n"
    by (rule put_calls_le)
  have full: "(\<forall>j<unat n. put_ok K sem s j) \<longrightarrow> put_calls K sem (unat n) s = unat n"
    by (simp add: put_calls_all_ok)
  have join: "fst (thread_join K t ec (s, tr)) = Inr () \<longrightarrow>
        snd (snd (thread_join K t ec (s, tr))) =
          tr @ (if tx_thread_state (threads s t) = TX_READY K then [Tx_thread_identify] else [])
             @ [Tx_thread_identify, Tx_semaphore_create ec ''binary_semaphore'' 0,
                Tx_thread_entry_exit_notify t Join_exit_callback,
                Tx_semaphore_get ec (TX_WAIT_FOREVER K)]"
    by (simp add: thread_join_eq identify_calls_def)
  from one one' none upto rel bound full thread_dtor_trace [of K t s tr] join
  show ?thesis by blast
qed


theorem kernel_calls_per_operation_witness:
  "snd (snd (mutex_lock sim_kernel 32 (boot, []))) = [Tx_mutex_get 32 0xFFFFFFFF]
   \<and> snd (snd (thread_get_priority 64 (boot, []))) = []
   \<and> snd (snd (thread_get_state sim_kernel 64 (boot, []))) = [Tx_thread_identify]
   \<and> snd (snd (semaphore_release sim_kernel 48 3 (boot, []))) =
       [Tx_semaphore_put 48, Tx_semaphore_put 48, Tx_semaphore_put 48]
   \<and> snd (snd (thread_dtor sim_kernel 64 (boot, []))) = [Tx_thread_terminate 64, Tx_thread_delete 64]
   \<and> snd (snd (thread_join sim_kernel 64 96 (boot, []))) =
       [Tx_thread_identify, Tx_thread_identify, Tx_semaphore_create 96 ''binary_semaphore'' 0,
        Tx_thread_entry_exit_notify 64 Join_exit_callback, Tx_semaphore_get 96 0xFFFFFFFF]"
proof -
  note inst = kernel_calls_per_operation [of sim_kernel 32 boot "[]" "Duration 5" 48 1 0
      "''sem''" 64 4096 1024 "User_fn 1" 0 1 3 96]
  from inst have "snd (snd (mutex_lock sim_kernel 32 (boot, []))) =
      [] @ [Tx_mutex_get 32 (TX_WAIT_FOREVER sim_kernel)]"
    by blast
  then have a: "snd (snd (mutex_lock sim_kernel 32 (boot, []))) = [Tx_mutex_get 32 0xFFFFFFFF]"
    by (simp add: sim_kernel_sel)
  from inst have b: "snd (snd (thread_get_priority 64 (boot, []))) = []"
    by blast
  from inst have "snd (snd (thread_get_state sim_kernel 64 (boot, []))) =
      [] @ (if tx_thread_state (threads boot 64) = TX_READY sim_kernel then [Tx_thread_identify]
            else [])"
    by blast
  then have c: "snd (snd (thread_get_state sim_kernel 64 (boot, []))) = [Tx_thread_identify]"
    by (simp add: sim_kernel_sel boot_def)
  have calls: "put_calls sim_kernel 48 (unat (3 :: ULONG)) boot = 3"
    by (simp add: put_calls_numeral sim_kernel_sel sim_semaphore_put_def)
  have rep: "replicate 3 (Tx_semaphore_put 48) =
      [Tx_semaphore_put 48, Tx_semaphore_put 48, Tx_semaphore_put 48]"
    by (simp add: numeral_3_eq_3)
  from inst have "snd (snd (semaphore_release sim_kernel 48 3 (boot, []))) =
      [] @ replicate (put_calls sim_kernel 48 (unat (3 :: ULONG)) boot) (Tx_semaphore_put 48)"
    by blast
  then have d: "snd (snd (semaphore_release sim_kernel 48 3 (boot, []))) =
      [Tx_semaphore_put 48, Tx_semaphore_put 48, Tx_semaphore_put 48]"
    by (simp only: calls rep append_Nil)
  from inst have "snd (snd (thread_dtor sim_kernel 64 (boot, []))) =
      [] @ (if tx_thread_state (threads boot 64) = TX_COMPLETED sim_kernel then [Tx_thread_delete 64]
            else if fst (tx_thread_terminate sim_kernel 64 boot) = TX_SUCCESS sim_kernel
              then [Tx_thread_terminate 64, Tx_thread_delete 64]
            else [Tx_thread_terminate 64])"
    by blast
  then have e: "snd (snd (thread_dtor sim_kernel 64 (boot, []))) =
      [Tx_thread_terminate 64, Tx_thread_delete 64]"
    by (simp add: sim_defs)
  have ret: "fst (thread_join sim_kernel 64 96 (boot, [])) = Inr ()"
    by (simp add: thread_join_eq joinable_of_def state_of_def sim_defs)
  with inst have "snd (snd (thread_join sim_kernel 64 96 (boot, []))) =
      [] @ (if tx_thread_state (threads boot 64) = TX_READY sim_kernel then [Tx_thread_identify]
            else [])
         @ [Tx_thread_identify, Tx_semaphore_create 96 ''binary_semaphore'' 0,
            Tx_thread_entry_exit_notify 64 Join_exit_callback,
            Tx_semaphore_get 96 (TX_WAIT_FOREVER sim_kernel)]"
    by blast
  then have f: "snd (snd (thread_join sim_kernel 64 96 (boot, []))) =
       [Tx_thread_identify, Tx_thread_identify, Tx_semaphore_create 96 ''binary_semaphore'' 0,
        Tx_thread_entry_exit_notify 64 Join_exit_callback, Tx_semaphore_get 96 0xFFFFFFFF]"
    by (simp add: sim_kernel_sel boot_def)
  from a b c d e f show ?thesis by blast
qed

text \<open>
  Claim C3 says that every kernel status code is surfaced as a boolean or as an assertion
  failure. As stated this fails: \<open>thread::suspend\<close> returns normally when
  \<open>tx_thread_suspend\<close> reports \<open>TX_SUSPEND_ERROR\<close> (the thread is completed) just as when it
  succeeds, and \<open>mutex::lock\<close> returns normally when \<open>tx_mutex_get\<close> reports
  \<open>TX_WAIT_ABORTED\<close>.
\<close>

theorem statuses_dropped_counterexample:
  "fst (tx_thread_suspend sim_kernel 64 (with_state 64 1 boot)) = sim_TX_SUSPEND_ERROR
   \<and> sim_TX_SUSPEND_ERROR \<noteq> TX_SUCCESS sim_kernel
   \<and> fst (thread_suspend sim_kernel 64 (with_state 64 1 boot, [])) = Inr ()
   \<and> fst (tx_thread_suspend sim_kernel 64 boot) = TX_SUCCESS sim_kernel
   \<and> fst (thread_suspend sim_kernel 64 (boot, [])) = Inr ()
   \<and> fst (tx_mutex_get sim_kernel 32 (TX_WAIT_FOREVER sim_kernel)
             (upd_mutex 32 (\<lambda>_. \<lparr>tx_mutex_owner = 80\<rparr>) boot)) = sim_TX_WAIT_ABORTED
   \<and> sim_TX_WAIT_ABORTED \<noteq> TX_SUCCESS sim_kernel
   \<and> fst (mutex_lock sim_kernel 32 (upd_mutex 32 (\<lambda>_. \<lparr>tx_mutex_owner = 80\<rparr>) boot, [])) = Inr ()
   \<and> fst (mutex_lock sim_kernel 32 (boot, [])) = Inr ()"
  by (simp add: thread_suspend_def mutex_lock_def bind_def return_def mutex_get_eq call_eq
      with_state_def sim_defs sim_TX_SUSPEND_ERROR_def sim_TX_WAIT_ABORTED_def Let_def)

text \<open>
  Claim C3, amended. The private \<open>get\<close> of a mutex or semaphore returns \<open>true\<close> exactly
  when the kernel call returns \<open>TX_SUCCESS\<close>, and \<open>try_lock\<close>, \<open>try_lock_for\<close>,
  \<open>try_acquire\<close> and \<open>try_acquire_for\<close> are that \<open>get\<close>. \<open>unlock\<close>, the thread constructor,
  the semaphore constructor and \<open>sleep_for\<close> fail an assertion exactly when the kernel call
  does not return \<open>TX_SUCCESS\<close>. \<open>lock\<close>, \<open>acquire\<close>, \<open>release\<close>, \<open>suspend\<close>, \<open>resume\<close>,
  \<open>set_priority\<close> and the mutex constructor return normally whatever the kernel returned.
  No result is a status code: the results are flags, or nothing.
\<close>

theorem status_is_flag_or_assertion:
  "fst (mutex_get K m d (s, tr)) = Inr (fst (tx_mutex_get K m (to_ticks d) s) = TX_SUCCESS K)
   \<and> fst (semaphore_get K sem d (s, tr)) = Inr (fst (tx_semaphore_get K sem (to_ticks d) s) = TX_SUCCESS K)
   \<and> mutex_try_lock K m = mutex_get K m (Duration 0)
   \<and> mutex_try_lock_for K m d = mutex_get K m d
   \<and> semaphore_try_acquire K sem = semaphore_get K sem (Duration 0)
   \<and> semaphore_try_acquire_for K sem d = semaphore_get K sem d
   \<and> fst (mutex_unlock K m (s, tr)) =
       (if fst (tx_mutex_put K m s) = TX_SUCCESS K then Inr () else Inl AssertionFailed)
   \<and> fst (thread_ctor K t pstack stack_size func param prio name (s, tr)) =
       (if fst (tx_thread_create K t name func param pstack stack_size prio prio
                  (TX_NO_TIME_SLICE K) (TX_AUTO_START K) s) = TX_SUCCESS K
        then Inr () else Inl AssertionFailed)
   \<and> fst (semaphore_ctor K sem max_value desired name (s, tr)) =
       (if fst (tx_semaphore_create K sem name desired s) = TX_SUCCESS K
        then Inr () else Inl AssertionFailed)
   \<and> fst (this_thread_sleep_for K d (s, tr)) =
       (if fst (tx_thread_sleep K (to_ticks d) s) = TX_SUCCESS K
        then Inr () else Inl AssertionFailed)
   \<and> fst (mutex_lock K m (s, tr)) = Inr ()
   \<and> fst (semaphore_acquire K sem (s, tr)) = Inr ()
   \<and> fst (semaphore_release K sem n (s, tr)) = Inr ()
   \<and> fst (thread_suspend K t (s, tr)) = Inr ()
   \<and> fst (thread_resume K t (s, tr)) = Inr ()
   \<and> fst (thread_set_priority K t prio (s, tr)) = Inr ()
   \<and> fst (mutex_ctor K m (s, tr)) = Inr ()"
proof -
  have flags: "fst (mutex_get K m d (s, tr)) = Inr (fst (tx_mutex_get K m (to_ticks d) s) = TX_SUCCESS K)"
    "fst (semaphore_get K sem d (s, tr)) = Inr (fst (tx_semaphore_get K sem (to_ticks d) s) = TX_SUCCESS K)"
    by (simp_all add: mutex_get_eq semaphore_get_eq to_ticks_def)
  have same: "mutex_try_lock K m = mutex_get K m (Duration 0)"
    "mutex_try_lock_for K m d = mutex_get K m d"
    "semaphore_try_acquire K sem = semaphore_get K sem (Duration 0)"
    "semaphore_try_acquire_for K sem d = semaphore_get K sem d"
    by (simp_all add: mutex_try_lock_def mutex_try_lock_for_def semaphore_try_acquire_def
        semaphore_try_acquire_for_def fun_eq_iff)
  have asserted: "fst (mutex_unlock K m (s, tr)) =
       (if fst (tx_mutex_put K m s) = TX_SUCCESS K then Inr () else Inl AssertionFailed)"
    "fst (thread_ctor K t pstack stack_size func param prio name (s, tr)) =
       (if fst (tx_thread_create K t name func param pstack stack_size prio prio
                  (TX_NO_TIME_SLICE K) (TX_AUTO_START K) s) = TX_SUCCESS K
        then Inr () else Inl AssertionFailed)"
    "fst (semaphore_ctor K sem max_value desired name (s, tr)) =
       (if fst (tx_semaphore_create K sem name desired s) = TX_SUCCESS K
        then Inr () else Inl AssertionFailed)"
    "fst (this_thread_sleep_for K d (s, tr)) =
       (if fst (tx_thread_sleep K (to_ticks d) s) = TX_SUCCESS K
        then Inr () else Inl AssertionFailed)"
    by (simp_all add: mutex_unlock_def thread_ctor_def semaphore_ctor_eq this_thread_sleep_for_def
        call_eq assert_def)
  have dropped: "fst (mutex_lock K m (s, tr)) = Inr ()"
    "fst (semaphore_acquire K sem (s, tr)) = Inr ()"
    "fst (semaphore_release K sem n (s, tr)) = Inr ()"
    "fst (thread_suspend K t (s, tr)) = Inr ()"
    "fst (thread_resume K t (s, tr)) = Inr ()"
    "fst (thread_set_priority K t prio (s, tr)) = Inr ()"
    "fst (mutex_ctor K m (s, tr)) = Inr ()"
    by (simp_all add: mutex_lock_def bind_def return_def mutex_get_eq semaphore_acquire_eq
        semaphore_release_eq thread_suspend_def thread_resume_def thread_set_priority_def
        mutex_ctor_def call_eq split_beta Let_def)
  from flags same asserted dropped show ?thesis by blast
qed

theorem status_is_flag_or_assertion_witness:
  "fst (mutex_get sim_kernel 32 (Duration 5) (boot, [])) = Inr True
   \<and> fst (semaphore_get sim_kernel 48 (Duration 5) (boot, [])) = Inr False
   \<and> fst (mutex_unlock sim_kernel 32 (boot, [])) = Inl AssertionFailed
   \<and> fst (thread_ctor sim_kernel 64 4096 1024 (User_fn 1) 0 1 ''worker'' (boot, [])) = Inr ()
   \<and> fst (thread_suspend sim_kernel 64 (with_state 64 1 boot, [])) = Inr ()"
proof -
  note at_boot = status_is_flag_or_assertion [of sim_kernel 32 "Duration 5" boot "[]" 48 64 4096
      1024 "User_fn 1" 0 1 "''worker''" 1 0 0]
  note at_completed = status_is_flag_or_assertion [of sim_kernel 32 "Duration 5"
      "with_state 64 1 boot" "[]" 48 64 4096 1024 "User_fn 1" 0 1 "''worker''" 1 0 0]
  from at_boot have "fst (mutex_get sim_kernel 32 (Duration 5) (boot, [])) =
      Inr (fst (tx_mutex_get sim_kernel 32 (to_ticks (Duration 5)) boot) = TX_SUCCESS sim_kernel)"
    by blast
  then have a: "fst (mutex_get sim_kernel 32 (Duration 5) (boot, [])) = Inr True"
    by (simp add: sim_defs Let_def)
  from at_boot have "fst (semaphore_get sim_kernel 48 (Duration 5) (boot, [])) =
      Inr (fst (tx_semaphore_get sim_kernel 48 (to_ticks (Duration 5)) boot) = TX_SUCCESS sim_kernel)"
    by blast
  then have b: "fst (semaphore_get sim_kernel 48 (Duration 5) (boot, [])) = Inr False"
    by (simp add: sim_defs to_ticks_def sim_TX_WAIT_ABORTED_def)
  from at_boot have "fst (mutex_unlock sim_kernel 32 (boot, [])) =
      (if fst (tx_mutex_put sim_kernel 32 boot) = TX_SUCCESS sim_kernel
       then Inr () else Inl AssertionFailed)"
    by blast
  then have c: "fst (mutex_unlock sim_kernel 32 (boot, [])) = Inl AssertionFailed"
    by (simp add: sim_defs sim_TX_NOT_OWNED_def Let_def)
  from at_boot have "fst (thread_ctor sim_kernel 64 4096 1024 (User_fn 1) 0 1 ''worker'' (boot, [])) =
      (if fst (tx_thread_create sim_kernel 64 ''worker'' (User_fn 1) 0 4096 1024 1 1
                 (TX_NO_TIME_SLICE sim_kernel) (TX_AUTO_START sim_kernel) boot) = TX_SUCCESS sim_kernel
       then Inr () else Inl AssertionFailed)"
    by blast
  then have d: "fst (thread_ctor sim_kernel 64 4096 1024 (User_fn 1) 0 1 ''worker'' (boot, [])) = Inr ()"
    by (simp add: sim_defs)
  from at_completed have e: "fst (thread_suspend sim_kernel 64 (with_state 64 1 boot, [])) = Inr ()"
    by blast
  from a b c d e show ?thesis by blast
qed

end
